theory Spec2Isabelle
  imports Complex_Main "HOL-Library.Word"
begin

section \<open>The sweep driver library, as the binding sees it\<close>

text \<open>
  The binding \<^verbatim>\<open>sweejs.cc\<close> talks to the native driver through opaque handles.
  A handle is a pointer; the model keeps its address. An out-parameter
  \<^verbatim>\<open>sweep_error_s* error\<close> that the caller initialised with \<^verbatim>\<open>nullptr\<close> is
  modelled by an optional error handle: \<open>None\<close> when the driver left it null.
\<close>

type_synonym int32_t = "32 word"
type_synonym sweep_device_s = nat
type_synonym sweep_error_s = nat
type_synonym sweep_scan_s = nat

text \<open>Every function of the driver the binding calls, with the arguments of the call.\<close>

datatype call =
    Device_construct_simple
  | Device_construct string int32_t int32_t
  | Device_destruct sweep_device_s
  | Device_start_scanning sweep_device_s
  | Device_stop_scanning sweep_device_s
  | Device_get_scan sweep_device_s int32_t
  | Scan_get_number_of_samples sweep_scan_s
  | Scan_get_angle sweep_scan_s int32_t
  | Scan_get_distance sweep_scan_s int32_t
  | Device_get_motor_speed sweep_device_s
  | Device_set_motor_speed sweep_device_s int32_t
  | Device_get_sample_rate sweep_device_s
  | Device_reset sweep_device_s
  | Error_message sweep_error_s
  | Error_destruct sweep_error_s

text \<open>
  The driver itself is not part of the binding: it is a parameter of the model, a record
  of functions over a driver state \<open>'d\<close> (the device, the serial line, the native
  heap). Commands return their result, the error handle they may have produced and the
  next driver state; the accessors of a scan and of an error only read. The header
  \<^verbatim>\<open>sweep.h\<close> is not among the sources; the sample accessors are taken to return
  \<^verbatim>\<open>int32_t\<close>, as the comment \<^verbatim>\<open>sample = {'angle': 360, 'distance': 20}\<close> shows.
\<close>

record 'd driver =
  sweep_device_construct_simple :: "'d \<Rightarrow> (sweep_device_s \<times> sweep_error_s option) \<times> 'd"
  sweep_device_construct ::
    "string \<Rightarrow> int32_t \<Rightarrow> int32_t \<Rightarrow> 'd \<Rightarrow> (sweep_device_s \<times> sweep_error_s option) \<times> 'd"
  sweep_device_destruct :: "sweep_device_s \<Rightarrow> 'd \<Rightarrow> 'd"
  sweep_device_start_scanning :: "sweep_device_s \<Rightarrow> 'd \<Rightarrow> sweep_error_s option \<times> 'd"
  sweep_device_stop_scanning :: "sweep_device_s \<Rightarrow> 'd \<Rightarrow> sweep_error_s option \<times> 'd"
  sweep_device_get_scan ::
    "sweep_device_s \<Rightarrow> int32_t \<Rightarrow> 'd \<Rightarrow> (sweep_scan_s \<times> sweep_error_s option) \<times> 'd"
  sweep_scan_get_number_of_samples :: "sweep_scan_s \<Rightarrow> 'd \<Rightarrow> int32_t"
  sweep_scan_get_angle :: "sweep_scan_s \<Rightarrow> int32_t \<Rightarrow> 'd \<Rightarrow> int32_t"
  sweep_scan_get_distance :: "sweep_scan_s \<Rightarrow> int32_t \<Rightarrow> 'd \<Rightarrow> int32_t"
  sweep_device_get_motor_speed ::
    "sweep_device_s \<Rightarrow> 'd \<Rightarrow> (int32_t \<times> sweep_error_s option) \<times> 'd"
  sweep_device_set_motor_speed ::
    "sweep_device_s \<Rightarrow> int32_t \<Rightarrow> 'd \<Rightarrow> sweep_error_s option \<times> 'd"
  sweep_device_get_sample_rate ::
    "sweep_device_s \<Rightarrow> 'd \<Rightarrow> (int32_t \<times> sweep_error_s option) \<times> 'd"
  sweep_device_reset :: "sweep_device_s \<Rightarrow> 'd \<Rightarrow> sweep_error_s option \<times> 'd"
  sweep_error_message :: "sweep_error_s \<Rightarrow> 'd \<Rightarrow> string"
  sweep_error_destruct :: "sweep_error_s \<Rightarrow> 'd \<Rightarrow> 'd"

section \<open>JavaScript values\<close>

text \<open>
  A JavaScript number is a double: a NaN, an infinity or a finite value, and every
  finite double is a rational. Functions and the objects made from the \<^verbatim>\<open>Sweep\<close>
  function template are known by their identity.
\<close>

datatype js_num = NaN | PosInf | NegInf | Fin rat

datatype js_value =
    JSUndefined
  | JSNull
  | JSBoolean bool
  | JSNumber js_num
  | JSString string
  | JSFunction nat
  | JSArray "js_value list"
  | JSObject "(string \<times> js_value) list"
  | JSInstance nat
  | JSError string
  | JSTypeError string

fun IsNumber :: "js_value \<Rightarrow> bool" where
  "IsNumber (JSNumber x) = True"
| "IsNumber v = False"

fun IsString :: "js_value \<Rightarrow> bool" where
  "IsString (JSString s) = True"
| "IsString v = False"

fun IsFunction :: "js_value \<Rightarrow> bool" where
  "IsFunction (JSFunction f) = True"
| "IsFunction v = False"

text \<open>
  What a native method receives (\<^verbatim>\<open>Nan::FunctionCallbackInfo\<close>). Reading an argument
  past the end gives \<^verbatim>\<open>undefined\<close>, as V8 does.
\<close>

record FunctionCallbackInfo =
  This :: nat
  Holder :: nat
  args :: "js_value list"
  IsConstructCall :: bool

definition Length :: "FunctionCallbackInfo \<Rightarrow> nat" where
  "Length info = length (args info)"

definition arg :: "FunctionCallbackInfo \<Rightarrow> nat \<Rightarrow> js_value" where
  "arg info i = (if i < length (args info) then args info ! i else JSUndefined)"

text \<open>
  How a native method ends: it returns a value (\<^verbatim>\<open>undefined\<close> when it sets none), it
  leaves a JavaScript exception pending, or the process aborts (\<^verbatim>\<open>FromJust\<close> on
  \<^verbatim>\<open>Nothing\<close>, \<^verbatim>\<open>Unwrap\<close> on an object that wraps no \<^verbatim>\<open>Sweep\<close>).
\<close>

datatype completion = Return js_value | Throw js_value | Abort

text \<open>
  The conversions of the JavaScript engine that run user-visible code are parameters:
  \<open>ToNumber\<close> of a value that is neither a number nor \<^verbatim>\<open>undefined\<close>, \<^verbatim>\<open>null\<close>
  or a boolean (\<open>None\<close> when the conversion throws), and \<^verbatim>\<open>Nan::Utf8String\<close>
  (\<open>None\<close> when it holds a null pointer).
\<close>

record engine =
  ToNumber :: "js_value \<Rightarrow> js_num option"
  Utf8String :: "js_value \<Rightarrow> string option"

text \<open>ECMAScript's ToInt32: truncate towards zero, then wrap to 32 bits.\<close>

definition ToInt32 :: "js_num \<Rightarrow> int32_t" where
  "ToInt32 x = (case x of
      Fin q \<Rightarrow> word_of_int (if 0 \<le> q then \<lfloor>q\<rfloor> else - \<lfloor>- q\<rfloor>)
    | _ \<Rightarrow> 0)"

text \<open>\<^verbatim>\<open>Nan::To<int32_t>(v)\<close>; \<open>None\<close> is \<^verbatim>\<open>Nothing\<close>.\<close>

fun To_int32 :: "engine \<Rightarrow> js_value \<Rightarrow> int32_t option" where
  "To_int32 E (JSNumber x) = Some (ToInt32 x)"
| "To_int32 E JSUndefined = Some 0"
| "To_int32 E JSNull = Some 0"
| "To_int32 E (JSBoolean b) = Some (if b then 1 else 0)"
| "To_int32 E v = map_option ToInt32 (ToNumber E v)"

text \<open>\<^verbatim>\<open>Nan::New(x)\<close> of an \<^verbatim>\<open>int32_t\<close>: the number with that signed value.\<close>

definition Nan_New :: "int32_t \<Rightarrow> js_value" where
  "Nan_New x = JSNumber (Fin (of_int (sint x)))"

text \<open>\<^verbatim>\<open>Nan::New<v8::Array>(n)\<close>: \<open>n\<close> holes, none for a negative \<open>n\<close>.\<close>

definition Nan_New_Array :: "int32_t \<Rightarrow> js_value list" where
  "Nan_New_Array n = replicate (nat (sint n)) JSUndefined"

text \<open>\<^verbatim>\<open>Nan::Set(array, i, v)\<close>: JavaScript extends an array written past its end.\<close>

definition Nan_Set :: "js_value list \<Rightarrow> nat \<Rightarrow> js_value \<Rightarrow> js_value list" where
  "Nan_Set xs i v =
     (if i < length xs then xs[i := v]
      else xs @ replicate (i - length xs) JSUndefined @ [v])"

section \<open>The wrapper object and the world it lives in\<close>

text \<open>
  \<^verbatim>\<open>std::shared_ptr<::sweep_device>\<close>: the raw pointer and the control block that
  counts the owners. \<^verbatim>\<open>Sweep\<close> has the one field \<^verbatim>\<open>device\<close>.
\<close>

record shared_ptr =
  get :: sweep_device_s
  ctrl :: nat

record Sweep =
  device :: shared_ptr

text \<open>
  The worker of \<^verbatim>\<open>Sweep::scan\<close>. \<open>sweep\<close> is the reference \<^verbatim>\<open>Sweep&\<close>: the
  model keeps the identity of the object referred to, not a copy of it. \<open>scan\<close> is
  uninitialised until \<^verbatim>\<open>Execute\<close> has run; \<open>errmsg\<close> is the field of the base class
  \<^verbatim>\<open>Nan::AsyncWorker\<close>, null until \<^verbatim>\<open>SetErrorMessage\<close>.
\<close>

record AsyncScanWorker =
  sweep :: nat
  timeout :: int32_t
  scan :: "sweep_scan_s option"
  callback :: nat
  errmsg :: "string option"

text \<open>
  The world: the driver's state; the log of the driver functions called so far, oldest
  first; the live \<^verbatim>\<open>Sweep\<close> objects, each with the JavaScript object that wraps it (the first
  entry of an object counts); the
  control blocks of the shared pointers; the next free identity; the workers handed to
  \<^verbatim>\<open>Nan::AsyncQueueWorker\<close> whose \<^verbatim>\<open>Execute\<close> has not run yet; the workers
  whose \<^verbatim>\<open>Execute\<close> has run and whose completion the main loop has not dispatched
  yet; and the calls of JavaScript callbacks made so far.
\<close>

record 'd world =
  drv :: 'd
  calls :: "call list"
  objs :: "(nat \<times> Sweep) list"
  use_count :: "nat \<rightharpoonup> nat"
  next_id :: nat
  queued :: "AsyncScanWorker list"
  finished :: "AsyncScanWorker list"
  invocations :: "(nat \<times> js_value list) list"

definition init_world :: "'d \<Rightarrow> 'd world" where
  "init_world d =
     \<lparr>drv = d, calls = [], objs = [], use_count = Map.empty, next_id = 0,
      queued = [], finished = [], invocations = []\<rparr>"

text \<open>A call into the driver: it is logged, and the driver's state moves on.\<close>

definition driver_call :: "call \<Rightarrow> ('d \<Rightarrow> 'r \<times> 'd) \<Rightarrow> 'd world \<Rightarrow> 'r \<times> 'd world" where
  "driver_call c f w =
     (fst (f (drv w)), w\<lparr>drv := snd (f (drv w)), calls := calls w @ [c]\<rparr>)"

text \<open>An accessor of the driver (it only reads) and a procedure (it returns nothing).\<close>

definition driver_read :: "call \<Rightarrow> ('d \<Rightarrow> 'r) \<Rightarrow> 'd world \<Rightarrow> 'r \<times> 'd world" where
  "driver_read c f w = driver_call c (\<lambda>d. (f d, d)) w"

definition driver_proc :: "call \<Rightarrow> ('d \<Rightarrow> 'd) \<Rightarrow> 'd world \<Rightarrow> 'd world" where
  "driver_proc c f w = snd (driver_call c (\<lambda>d. ((), f d)) w)"

text \<open>\<^verbatim>\<open>callback->Call(argc, argv)\<close>: the call is recorded.\<close>

definition Call :: "nat \<Rightarrow> js_value list \<Rightarrow> 'd world \<Rightarrow> 'd world" where
  "Call f argv w = w\<lparr>invocations := invocations w @ [(f, argv)]\<rparr>"

text \<open>\<^verbatim>\<open>Nan::ObjectWrap::Unwrap<Sweep>\<close> and \<^verbatim>\<open>Wrap\<close>.\<close>

definition Unwrap :: "'d world \<Rightarrow> nat \<Rightarrow> Sweep option" where
  "Unwrap w obj = map_of (objs w) obj"

definition Wrap :: "Sweep \<Rightarrow> nat \<Rightarrow> 'd world \<Rightarrow> 'd world" where
  "Wrap self obj w = w\<lparr>objs := (obj, self) # objs w\<rparr>"

subsection \<open>Shared ownership of the device\<close>

text \<open>
  Lines 22 and 34: \<^verbatim>\<open>std::shared_ptr<::sweep_device> arc{devptr, deleter}\<close> makes a
  control block with one owner; moving \<open>arc\<close> into \<open>device\<close> keeps the count.
\<close>

definition make_shared_ptr :: "sweep_device_s \<Rightarrow> 'd world \<Rightarrow> shared_ptr \<times> 'd world" where
  "make_shared_ptr devptr w =
     (\<lparr>get = devptr, ctrl = next_id w\<rparr>,
      w\<lparr>use_count := (use_count w)(next_id w \<mapsto> 1), next_id := Suc (next_id w)\<rparr>)"

text \<open>
  An owner lets go: the last one runs the deleter, which is
  \<^verbatim>\<open>::sweep_device_destruct(dev)\<close>.
\<close>

definition release :: "'d driver \<Rightarrow> shared_ptr \<Rightarrow> 'd world \<Rightarrow> 'd world" where
  "release D p w =
     (case use_count w (ctrl p) of
        None \<Rightarrow> w
      | Some n \<Rightarrow>
          if n \<le> 1 then
            (driver_proc (Device_destruct (get p)) (sweep_device_destruct D (get p)) w)
              \<lparr>use_count := (use_count w)(ctrl p := None)\<rparr>
          else w\<lparr>use_count := (use_count w)(ctrl p \<mapsto> n - 1)\<rparr>)"

text \<open>
  The destructor of \<^verbatim>\<open>Sweep\<close> is the implicit one (the source defines none): it
  destroys the member \<open>device\<close>. \<^verbatim>\<open>Nan::ObjectWrap\<close> runs it when the garbage
  collector finalises the JavaScript object that wraps the \<^verbatim>\<open>Sweep\<close>.
\<close>

definition Finalize :: "'d driver \<Rightarrow> nat \<Rightarrow> 'd world \<Rightarrow> 'd world" where
  "Finalize D obj w =
     (case map_of (objs w) obj of
        None \<Rightarrow> w
      | Some self \<Rightarrow>
          release D (device self) (w\<lparr>objs := filter (\<lambda>p. fst p \<noteq> obj) (objs w)\<rparr>))"

section \<open>The constructors\<close>

text \<open>
  \<^verbatim>\<open>Sweep::Sweep()\<close> and \<^verbatim>\<open>Sweep::Sweep(port, baudrate, timeout)\<close>. \<open>Inl what\<close>
  is the \<^verbatim>\<open>SweepError\<close> thrown; \<open>Inr\<close> the object constructed.
\<close>

definition Sweep_ctor :: "'d driver \<Rightarrow> 'd world \<Rightarrow> (string + Sweep) \<times> 'd world" where
  "Sweep_ctor D w =
     (case driver_call Device_construct_simple (sweep_device_construct_simple D) w of
        ((devptr, Some error), w1) \<Rightarrow> (Inl ''device construction failed'', w1)
      | ((devptr, None), w1) \<Rightarrow>
          (case make_shared_ptr devptr w1 of
             (arc, w2) \<Rightarrow> (Inr \<lparr>device = arc\<rparr>, w2)))"

definition Sweep_ctor_port ::
  "'d driver \<Rightarrow> string \<Rightarrow> int32_t \<Rightarrow> int32_t \<Rightarrow> 'd world \<Rightarrow> (string + Sweep) \<times> 'd world" where
  "Sweep_ctor_port D port baudrate tmo w =
     (case driver_call (Device_construct port baudrate tmo)
             (sweep_device_construct D port baudrate tmo) w of
        ((devptr, Some error), w1) \<Rightarrow> (Inl ''device construction failed'', w1)
      | ((devptr, None), w1) \<Rightarrow>
          (case make_shared_ptr devptr w1 of
             (arc, w2) \<Rightarrow> (Inr \<lparr>device = arc\<rparr>, w2)))"

text \<open>
  The body of \<^verbatim>\<open>Sweep::New\<close> under \<^verbatim>\<open>info.IsConstructCall()\<close> (lines 71 to 95).
\<close>

definition New_construct ::
  "'d driver \<Rightarrow> engine \<Rightarrow> FunctionCallbackInfo \<Rightarrow> bool \<Rightarrow> bool \<Rightarrow> 'd world
     \<Rightarrow> completion \<times> 'd world" where
  "New_construct D E info simple config w =
     (if simple then
        (case Sweep_ctor D w of
           (Inl what, w1) \<Rightarrow> (Throw (JSError what), w1)
         | (Inr self, w1) \<Rightarrow> (Return (JSInstance (This info)), Wrap self (This info) w1))
      else if config then
        (case Utf8String E (arg info 0) of
           None \<Rightarrow> (Throw (JSError ''UTF-8 conversion error for serial port string''), w)
         | Some port \<Rightarrow>
             (case To_int32 E (arg info 1) of
                None \<Rightarrow> (Abort, w)
              | Some baudrate \<Rightarrow>
                  (case To_int32 E (arg info 2) of
                     None \<Rightarrow> (Abort, w)
                   | Some tmo \<Rightarrow>
                       (case Sweep_ctor_port D port baudrate tmo w of
                          (Inl what, w1) \<Rightarrow> (Throw (JSError what), w1)
                        | (Inr self, w1) \<Rightarrow>
                            (Return (JSInstance (This info)), Wrap self (This info) w1)))))
      else (Throw (JSError ''Unable to create device''), w))"

text \<open>
  \<^verbatim>\<open>NewInstance()\<close> makes a new JavaScript object: its identity is above that of
  every wrapped object and not below the next free identity, so it is no live object's.
\<close>

definition fresh_object :: "'d world \<Rightarrow> nat" where
  "fresh_object w = max (next_id w) (Suc (foldr max (map fst (objs w)) 0))"

text \<open>
  \<^verbatim>\<open>Sweep::New\<close>. Called without \<^verbatim>\<open>new\<close>, it constructs through
  \<^verbatim>\<open>NewInstance()\<close>: a construct call with no arguments on a fresh object.
\<close>

definition Sweep_New ::
  "'d driver \<Rightarrow> engine \<Rightarrow> FunctionCallbackInfo \<Rightarrow> 'd world \<Rightarrow> completion \<times> 'd world" where
  "Sweep_New D E info w =
     (let simple = (Length info = 0);
          config = (Length info = 3 \<and> IsString (arg info 0) \<and> IsNumber (arg info 1)
                      \<and> IsNumber (arg info 2))
      in if \<not> simple \<and> \<not> config then
           (Throw (JSTypeError
              ''No arguments for auto-detection or serial port, baudrate, timeout expected''), w)
         else if IsConstructCall info then New_construct D E info simple config w
         else New_construct D E
                \<lparr>This = fresh_object w, Holder = fresh_object w, args = [],
                 IsConstructCall = True\<rparr>
                True False (w\<lparr>next_id := Suc (fresh_object w)\<rparr>))"

section \<open>The synchronous methods\<close>

text \<open>
  The block every method runs on a driver error:
  \<^verbatim>\<open>Nan::ThrowError(::sweep_error_message(error)); ::sweep_error_destruct(error);\<close>
\<close>

definition throw_error ::
  "'d driver \<Rightarrow> sweep_error_s \<Rightarrow> 'd world \<Rightarrow> completion \<times> 'd world" where
  "throw_error D error w =
     (case driver_read (Error_message error) (sweep_error_message D error) w of
        (msg, w1) \<Rightarrow>
          (Throw (JSError msg),
           driver_proc (Error_destruct error) (sweep_error_destruct D error) w1))"

definition Sweep_startScanning ::
  "'d driver \<Rightarrow> FunctionCallbackInfo \<Rightarrow> 'd world \<Rightarrow> completion \<times> 'd world" where
  "Sweep_startScanning D info w =
     (case Unwrap w (Holder info) of
        None \<Rightarrow> (Abort, w)
      | Some self \<Rightarrow>
          if Length info \<noteq> 0 then (Throw (JSTypeError ''No arguments expected''), w)
          else
            (case driver_call (Device_start_scanning (get (device self)))
                    (sweep_device_start_scanning D (get (device self))) w of
               (None, w1) \<Rightarrow> (Return JSUndefined, w1)
             | (Some error, w1) \<Rightarrow> throw_error D error w1))"

definition Sweep_stopScanning ::
  "'d driver \<Rightarrow> FunctionCallbackInfo \<Rightarrow> 'd world \<Rightarrow> completion \<times> 'd world" where
  "Sweep_stopScanning D info w =
     (case Unwrap w (Holder info) of
        None \<Rightarrow> (Abort, w)
      | Some self \<Rightarrow>
          if Length info \<noteq> 0 then (Throw (JSTypeError ''No arguments expected''), w)
          else
            (case driver_call (Device_stop_scanning (get (device self)))
                    (sweep_device_stop_scanning D (get (device self))) w of
               (None, w1) \<Rightarrow> (Return JSUndefined, w1)
             | (Some error, w1) \<Rightarrow> throw_error D error w1))"

definition Sweep_getMotorSpeed ::
  "'d driver \<Rightarrow> FunctionCallbackInfo \<Rightarrow> 'd world \<Rightarrow> completion \<times> 'd world" where
  "Sweep_getMotorSpeed D info w =
     (case Unwrap w (Holder info) of
        None \<Rightarrow> (Abort, w)
      | Some self \<Rightarrow>
          if Length info \<noteq> 0 then (Throw (JSTypeError ''No arguments expected''), w)
          else
            (case driver_call (Device_get_motor_speed (get (device self)))
                    (sweep_device_get_motor_speed D (get (device self))) w of
               ((speed, None), w1) \<Rightarrow> (Return (Nan_New speed), w1)
             | ((speed, Some error), w1) \<Rightarrow> throw_error D error w1))"

text \<open>
  \<^verbatim>\<open>Sweep::setMotorSpeed\<close>. Its guard is the source's, a conjunction:
  \<^verbatim>\<open>info.Length() != 1 && !info[0]->IsNumber()\<close>.
\<close>

definition Sweep_setMotorSpeed ::
  "'d driver \<Rightarrow> engine \<Rightarrow> FunctionCallbackInfo \<Rightarrow> 'd world \<Rightarrow> completion \<times> 'd world" where
  "Sweep_setMotorSpeed D E info w =
     (case Unwrap w (Holder info) of
        None \<Rightarrow> (Abort, w)
      | Some self \<Rightarrow>
          if Length info \<noteq> 1 \<and> \<not> IsNumber (arg info 0) then
            (Throw (JSTypeError ''Motor speed in Hz as number expected''), w)
          else
            (case To_int32 E (arg info 0) of
               None \<Rightarrow> (Abort, w)
             | Some speed \<Rightarrow>
                 (case driver_call (Device_set_motor_speed (get (device self)) speed)
                         (sweep_device_set_motor_speed D (get (device self)) speed) w of
                    (None, w1) \<Rightarrow> (Return JSUndefined, w1)
                  | (Some error, w1) \<Rightarrow> throw_error D error w1)))"

definition Sweep_getSampleRate ::
  "'d driver \<Rightarrow> FunctionCallbackInfo \<Rightarrow> 'd world \<Rightarrow> completion \<times> 'd world" where
  "Sweep_getSampleRate D info w =
     (case Unwrap w (Holder info) of
        None \<Rightarrow> (Abort, w)
      | Some self \<Rightarrow>
          if Length info \<noteq> 0 then (Throw (JSTypeError ''No arguments expected''), w)
          else
            (case driver_call (Device_get_sample_rate (get (device self)))
                    (sweep_device_get_sample_rate D (get (device self))) w of
               ((rate, None), w1) \<Rightarrow> (Return (Nan_New rate), w1)
             | ((rate, Some error), w1) \<Rightarrow> throw_error D error w1))"

definition Sweep_reset ::
  "'d driver \<Rightarrow> FunctionCallbackInfo \<Rightarrow> 'd world \<Rightarrow> completion \<times> 'd world" where
  "Sweep_reset D info w =
     (case Unwrap w (Holder info) of
        None \<Rightarrow> (Abort, w)
      | Some self \<Rightarrow>
          if Length info \<noteq> 0 then (Throw (JSTypeError ''No arguments expected''), w)
          else
            (case driver_call (Device_reset (get (device self)))
                    (sweep_device_reset D (get (device self))) w of
               (None, w1) \<Rightarrow> (Return JSUndefined, w1)
             | (Some error, w1) \<Rightarrow> throw_error D error w1))"

section \<open>The asynchronous scan\<close>

text \<open>
  \<^verbatim>\<open>Sweep::scan\<close> (lines 134 to 193): it checks its arguments, builds the worker
  from \<^verbatim>\<open>*self\<close>, the callback and the timeout, and hands it to
  \<^verbatim>\<open>Nan::AsyncQueueWorker\<close>. It calls no driver function itself.
\<close>

definition AsyncQueueWorker :: "AsyncScanWorker \<Rightarrow> 'd world \<Rightarrow> 'd world" where
  "AsyncQueueWorker wk w = w\<lparr>queued := queued w @ [wk]\<rparr>"

definition Sweep_scan ::
  "engine \<Rightarrow> FunctionCallbackInfo \<Rightarrow> 'd world \<Rightarrow> completion \<times> 'd world" where
  "Sweep_scan E info w =
     (case Unwrap w (Holder info) of
        None \<Rightarrow> (Abort, w)
      | Some self \<Rightarrow>
          if Length info \<noteq> 2 \<or> \<not> IsNumber (arg info 0) \<or> \<not> IsFunction (arg info 1) then
            (Throw (JSTypeError ''Timeout and callback expected''), w)
          else
            (case To_int32 E (arg info 0) of
               None \<Rightarrow> (Abort, w)
             | Some tmo \<Rightarrow>
                 (case arg info 1 of
                    JSFunction function \<Rightarrow>
                      (Return JSUndefined,
                       AsyncQueueWorker
                         \<lparr>sweep = Holder info, timeout = tmo, scan = None,
                          callback = function, errmsg = None\<rparr> w)
                  | _ \<Rightarrow> (Abort, w))))"

text \<open>
  \<^verbatim>\<open>AsyncScanWorker::Execute\<close> (lines 148 to 156), run by a thread of the pool. It
  reaches the device through the reference \<open>sweep\<close>; when the object referred to is
  gone the reference dangles and the behaviour is undefined: \<open>None\<close>.
\<close>

definition Execute ::
  "'d driver \<Rightarrow> AsyncScanWorker \<Rightarrow> 'd world \<Rightarrow> (AsyncScanWorker \<times> 'd world) option" where
  "Execute D wk w =
     (case map_of (objs w) (sweep wk) of
        None \<Rightarrow> None
      | Some self \<Rightarrow>
          (case driver_call (Device_get_scan (get (device self)) (timeout wk))
                  (sweep_device_get_scan D (get (device self)) (timeout wk)) w of
             ((s, None), w1) \<Rightarrow> Some (wk\<lparr>scan := Some s\<rparr>, w1)
           | ((s, Some error), w1) \<Rightarrow>
               (case driver_read (Error_message error) (sweep_error_message D error) w1 of
                  (msg, w2) \<Rightarrow>
                    Some (wk\<lparr>scan := Some s, errmsg := Some msg\<rparr>,
                          driver_proc (Error_destruct error) (sweep_error_destruct D error) w2))))"

text \<open>
  The loop of \<^verbatim>\<open>HandleOKCallback\<close> (lines 165 to 178):
  \<^verbatim>\<open>for (int32_t i = 0; i < n; ++i)\<close>, one object per sample, stored at index
  \<open>i\<close> of the array.
\<close>

function sample_loop ::
  "'d driver \<Rightarrow> sweep_scan_s \<Rightarrow> int32_t \<Rightarrow> int32_t \<Rightarrow> js_value list \<Rightarrow> 'd world
     \<Rightarrow> js_value list \<times> 'd world" where
  "sample_loop D s n i samples w =
     (if i <s n then
        (case driver_read (Scan_get_angle s i) (sweep_scan_get_angle D s i) w of
           (angle, w1) \<Rightarrow>
             (case driver_read (Scan_get_distance s i) (sweep_scan_get_distance D s i) w1 of
                (distance, w2) \<Rightarrow>
                  sample_loop D s n (i + 1)
                    (Nan_Set samples (unat i)
                       (JSObject [(''angle'', Nan_New angle), (''distance'', Nan_New distance)]))
                    w2))
      else (samples, w))"
  by pat_completeness auto
termination
proof (relation "measure (\<lambda>(D, s, n, i, samples, w). nat (sint n - sint i))")
  show "wf (measure (\<lambda>(D, s, n, i, samples, w). nat (sint n - sint i)))"
    by simp
next
  fix D :: "'d driver" and s :: sweep_scan_s and n i :: int32_t
    and samples :: "js_value list" and w w1 w2 :: "'d world" and x y :: int32_t
  assume "i <s n"
  then have lt: "sint i < sint n"
    by (simp add: word_sless_alt)
  have up: "sint n < 2 ^ 31"
    using sint_lt [of n] by simp
  have lo: "- (2 ^ 31) \<le> sint i"
    using sint_ge [of i] by simp
  have "sint (i + 1) = signed_take_bit 31 (sint i + 1)"
    by (simp add: sint_word_ariths)
  also have "\<dots> = sint i + 1"
    using lt up lo by (intro signed_take_bit_int_eq_self) auto
  finally have "sint (i + 1) = sint i + 1" .
  with lt show
    "((D, s, n, i + 1,
       Nan_Set samples (unat i) (JSObject [(''angle'', Nan_New x), (''distance'', Nan_New y)]),
       w2),
      (D, s, n, i, samples, w))
       \<in> measure (\<lambda>(D, s, n, i, samples, w). nat (sint n - sint i))"
    by simp
qed

declare sample_loop.simps [simp del]

text \<open>
  \<^verbatim>\<open>AsyncScanWorker::HandleOKCallback\<close> (lines 158 to 184). Reading \<open>scan\<close>
  before \<^verbatim>\<open>Execute\<close> has set it is undefined: \<open>None\<close>.
\<close>

definition HandleOKCallback ::
  "'d driver \<Rightarrow> AsyncScanWorker \<Rightarrow> 'd world \<Rightarrow> 'd world option" where
  "HandleOKCallback D wk w =
     (case scan wk of
        None \<Rightarrow> None
      | Some s \<Rightarrow>
          (case driver_read (Scan_get_number_of_samples s)
                  (sweep_scan_get_number_of_samples D s) w of
             (n, w1) \<Rightarrow>
               (case sample_loop D s n 0 (Nan_New_Array n) w1 of
                  (samples, w2) \<Rightarrow>
                    Some (Call (callback wk) [JSNull, JSArray samples] w2))))"

text \<open>
  The two members the worker inherits from \<^verbatim>\<open>Nan::AsyncWorker\<close>:
  \<^verbatim>\<open>HandleErrorCallback\<close> calls the callback with the one argument
  \<^verbatim>\<open>Error(ErrorMessage())\<close>, and \<^verbatim>\<open>WorkComplete\<close>, run by the main loop once
  \<^verbatim>\<open>Execute\<close> is over, chooses by \<^verbatim>\<open>errmsg_ == NULL\<close>.
\<close>

definition HandleErrorCallback :: "AsyncScanWorker \<Rightarrow> string \<Rightarrow> 'd world \<Rightarrow> 'd world" where
  "HandleErrorCallback wk msg w = Call (callback wk) [JSError msg] w"

definition WorkComplete ::
  "'d driver \<Rightarrow> AsyncScanWorker \<Rightarrow> 'd world \<Rightarrow> 'd world option" where
  "WorkComplete D wk w =
     (case errmsg wk of
        None \<Rightarrow> HandleOKCallback D wk w
      | Some msg \<Rightarrow> Some (HandleErrorCallback wk msg w))"

text \<open>
  The two steps the runtime takes for a worker: a pool thread runs \<^verbatim>\<open>Execute\<close> of
  the \<open>k\<close>-th queued worker; later the main loop runs \<^verbatim>\<open>WorkComplete\<close> of the
  \<open>k\<close>-th finished worker and destroys it. A step on a worker that is not there does
  nothing.
\<close>

definition pool_execute :: "'d driver \<Rightarrow> nat \<Rightarrow> 'd world \<Rightarrow> 'd world option" where
  "pool_execute D k w =
     (if k < length (queued w) then
        (case Execute D (queued w ! k) w of
           None \<Rightarrow> None
         | Some (wk, w1) \<Rightarrow>
             Some (w1\<lparr>queued := take k (queued w1) @ drop (Suc k) (queued w1),
                       finished := finished w1 @ [wk]\<rparr>))
      else Some w)"

definition loop_complete :: "'d driver \<Rightarrow> nat \<Rightarrow> 'd world \<Rightarrow> 'd world option" where
  "loop_complete D k w =
     (if k < length (finished w) then
        (case WorkComplete D (finished w ! k) w of
           None \<Rightarrow> None
         | Some w1 \<Rightarrow>
             Some (w1\<lparr>finished := take k (finished w1) @ drop (Suc k) (finished w1)\<rparr>))
      else Some w)"

text \<open>The workers in flight: started by \<^verbatim>\<open>scan\<close>, continuation not yet called.\<close>

definition outstanding :: "'d world \<Rightarrow> AsyncScanWorker list" where
  "outstanding w = queued w @ finished w"

section \<open>The methods of the prototype\<close>

text \<open>The table \<^verbatim>\<open>Sweep::Init\<close> registers (lines 47 to 53).\<close>

datatype prototype_method =
  StartScanning | StopScanning | Scan | GetMotorSpeed | SetMotorSpeed | GetSampleRate | Reset

fun prototype_call ::
  "'d driver \<Rightarrow> engine \<Rightarrow> prototype_method \<Rightarrow> FunctionCallbackInfo \<Rightarrow> 'd world
     \<Rightarrow> completion \<times> 'd world" where
  "prototype_call D E StartScanning info w = Sweep_startScanning D info w"
| "prototype_call D E StopScanning info w = Sweep_stopScanning D info w"
| "prototype_call D E Scan info w = Sweep_scan E info w"
| "prototype_call D E GetMotorSpeed info w = Sweep_getMotorSpeed D info w"
| "prototype_call D E SetMotorSpeed info w = Sweep_setMotorSpeed D E info w"
| "prototype_call D E GetSampleRate info w = Sweep_getSampleRate D info w"
| "prototype_call D E Reset info w = Sweep_reset D info w"

section \<open>Vocabulary of the properties\<close>

text \<open>
  What the driver reports for a call on the state \<open>d\<close>: the error handle it produces
  (\<open>None\<close> when it reports no error) and the state it moves to. The destructors and
  the accessors have no error out-parameter.
\<close>

fun reported :: "'d driver \<Rightarrow> call \<Rightarrow> 'd \<Rightarrow> sweep_error_s option" where
  "reported D Device_construct_simple d = snd (fst (sweep_device_construct_simple D d))"
| "reported D (Device_construct port baudrate tmo) d =
     snd (fst (sweep_device_construct D port baudrate tmo d))"
| "reported D (Device_start_scanning dev) d = fst (sweep_device_start_scanning D dev d)"
| "reported D (Device_stop_scanning dev) d = fst (sweep_device_stop_scanning D dev d)"
| "reported D (Device_get_scan dev tmo) d = snd (fst (sweep_device_get_scan D dev tmo d))"
| "reported D (Device_get_motor_speed dev) d = snd (fst (sweep_device_get_motor_speed D dev d))"
| "reported D (Device_set_motor_speed dev speed) d =
     fst (sweep_device_set_motor_speed D dev speed d)"
| "reported D (Device_get_sample_rate dev) d = snd (fst (sweep_device_get_sample_rate D dev d))"
| "reported D (Device_reset dev) d = fst (sweep_device_reset D dev d)"
| "reported D c d = None"

fun state_after :: "'d driver \<Rightarrow> call \<Rightarrow> 'd \<Rightarrow> 'd" where
  "state_after D Device_construct_simple d = snd (sweep_device_construct_simple D d)"
| "state_after D (Device_construct port baudrate tmo) d =
     snd (sweep_device_construct D port baudrate tmo d)"
| "state_after D (Device_destruct dev) d = sweep_device_destruct D dev d"
| "state_after D (Device_start_scanning dev) d = snd (sweep_device_start_scanning D dev d)"
| "state_after D (Device_stop_scanning dev) d = snd (sweep_device_stop_scanning D dev d)"
| "state_after D (Device_get_scan dev tmo) d = snd (sweep_device_get_scan D dev tmo d)"
| "state_after D (Device_get_motor_speed dev) d = snd (sweep_device_get_motor_speed D dev d)"
| "state_after D (Device_set_motor_speed dev speed) d =
     snd (sweep_device_set_motor_speed D dev speed d)"
| "state_after D (Device_get_sample_rate dev) d = snd (sweep_device_get_sample_rate D dev d)"
| "state_after D (Device_reset dev) d = snd (sweep_device_reset D dev d)"
| "state_after D (Error_destruct error) d = sweep_error_destruct D error d"
| "state_after D c d = d"

text \<open>
  The argument shapes of the public methods, as their type errors name them:
  \<^verbatim>\<open>No arguments expected\<close>, \<^verbatim>\<open>Motor speed in Hz as number expected\<close>,
  \<^verbatim>\<open>Timeout and callback expected\<close>.
\<close>

fun valid_arguments :: "prototype_method \<Rightarrow> FunctionCallbackInfo \<Rightarrow> bool" where
  "valid_arguments SetMotorSpeed info = (Length info = 1 \<and> IsNumber (arg info 0))"
| "valid_arguments Scan info =
     (Length info = 2 \<and> IsNumber (arg info 0) \<and> IsFunction (arg info 1))"
| "valid_arguments m info = (Length info = 0)"

text \<open>
  The driver command of a synchronous method on the device \<open>dev\<close>; the motor speed
  passed on is the first argument as an \<^verbatim>\<open>int32_t\<close>.
\<close>

definition speed_argument :: "FunctionCallbackInfo \<Rightarrow> int32_t" where
  "speed_argument info = (case arg info 0 of JSNumber x \<Rightarrow> ToInt32 x | _ \<Rightarrow> 0)"

fun sync_command :: "prototype_method \<Rightarrow> sweep_device_s \<Rightarrow> FunctionCallbackInfo \<Rightarrow> call option" where
  "sync_command StartScanning dev info = Some (Device_start_scanning dev)"
| "sync_command StopScanning dev info = Some (Device_stop_scanning dev)"
| "sync_command GetMotorSpeed dev info = Some (Device_get_motor_speed dev)"
| "sync_command SetMotorSpeed dev info =
     Some (Device_set_motor_speed dev (speed_argument info))"
| "sync_command GetSampleRate dev info = Some (Device_get_sample_rate dev)"
| "sync_command Reset dev info = Some (Device_reset dev)"
| "sync_command Scan dev info = None"

text \<open>The record \<^verbatim>\<open>{angle, distance}\<close> of sample \<open>i\<close> of a scan.\<close>

definition sample_record :: "'d driver \<Rightarrow> sweep_scan_s \<Rightarrow> 'd \<Rightarrow> nat \<Rightarrow> js_value" where
  "sample_record D s d i =
     JSObject [(''angle'', Nan_New (sweep_scan_get_angle D s (word_of_nat i) d)),
               (''distance'', Nan_New (sweep_scan_get_distance D s (word_of_nat i) d))]"

section \<open>A scripted driver\<close>

text \<open>
  A driver for concrete runs: every command answers with the scripted error handle
  (none when \<open>err\<close> is \<open>None\<close>), the device is at address 7, a scan has two samples.
\<close>

definition mock_driver :: "sweep_error_s option \<Rightarrow> unit driver" where
  "mock_driver err =
     \<lparr>sweep_device_construct_simple = (\<lambda>d. ((7, err), d)),
      sweep_device_construct = (\<lambda>port baudrate tmo d. ((7, err), d)),
      sweep_device_destruct = (\<lambda>dev d. d),
      sweep_device_start_scanning = (\<lambda>dev d. (err, d)),
      sweep_device_stop_scanning = (\<lambda>dev d. (err, d)),
      sweep_device_get_scan = (\<lambda>dev tmo d. ((3, err), d)),
      sweep_scan_get_number_of_samples = (\<lambda>s d. 2),
      sweep_scan_get_angle = (\<lambda>s i d. 90 * (i + 1)),
      sweep_scan_get_distance = (\<lambda>s i d. 20 + i),
      sweep_device_get_motor_speed = (\<lambda>dev d. ((5, err), d)),
      sweep_device_set_motor_speed = (\<lambda>dev speed d. (err, d)),
      sweep_device_get_sample_rate = (\<lambda>dev d. ((500, err), d)),
      sweep_device_reset = (\<lambda>dev d. (err, d)),
      sweep_error_message = (\<lambda>error d. ''timeout''),
      sweep_error_destruct = (\<lambda>error d. d)\<rparr>"

text \<open>
  An engine for concrete runs: \<open>ToNumber\<close> of a string or an object is NaN (as it is
  for the string \<^verbatim>\<open>'fast'\<close>), and a string converts to itself.
\<close>

definition mock_engine :: engine where
  "mock_engine =
     \<lparr>ToNumber = (\<lambda>v. Some NaN),
      Utf8String = (\<lambda>v. case v of JSString s \<Rightarrow> Some s | _ \<Rightarrow> None)\<rparr>"

text \<open>\<^verbatim>\<open>new Sweep()\<close> on object 1, and a world in which it has succeeded.\<close>

definition new_info :: "js_value list \<Rightarrow> FunctionCallbackInfo" where
  "new_info as = \<lparr>This = 1, Holder = 1, args = as, IsConstructCall = True\<rparr>"

definition session_world :: "unit world" where
  "session_world = snd (Sweep_New (mock_driver None) mock_engine (new_info []) (init_world ()))"

text \<open>
  A method call on object 1, and the world after \<^verbatim>\<open>scan(5000, f)\<close> on the session
  above: one worker is in flight.
\<close>

definition method_info :: "js_value list \<Rightarrow> FunctionCallbackInfo" where
  "method_info as = \<lparr>This = 1, Holder = 1, args = as, IsConstructCall = False\<rparr>"

definition scanning_world :: "unit world" where
  "scanning_world =
     snd (Sweep_scan mock_engine (method_info [JSNumber (Fin 5000), JSFunction 9]) session_world)"

text \<open>The worker that \<^verbatim>\<open>scan(5000, f)\<close> queued.\<close>

definition scan_worker :: AsyncScanWorker where
  "scan_worker = \<lparr>sweep = 1, timeout = 5000, scan = None, callback = 9, errmsg = None\<rparr>"

section \<open>Basic facts\<close>

lemmas method_defs =
  Sweep_startScanning_def Sweep_stopScanning_def Sweep_getMotorSpeed_def
  Sweep_setMotorSpeed_def Sweep_getSampleRate_def Sweep_reset_def Sweep_scan_def

lemmas driver_defs = throw_error_def driver_call_def driver_read_def driver_proc_def

lemma session_world_eq:
  "session_world =
     \<lparr>drv = (), calls = [Device_construct_simple],
      objs = [(1, \<lparr>device = \<lparr>get = 7, ctrl = 0\<rparr>\<rparr>)], use_count = [0 \<mapsto> 1], next_id = 1,
      queued = [], finished = [], invocations = []\<rparr>"
  by (simp add: session_world_def Sweep_New_def New_construct_def Sweep_ctor_def new_info_def
        Length_def driver_call_def mock_driver_def make_shared_ptr_def Wrap_def init_world_def)

lemma scanning_world_eq:
  "scanning_world =
     \<lparr>drv = (), calls = [Device_construct_simple],
      objs = [(1, \<lparr>device = \<lparr>get = 7, ctrl = 0\<rparr>\<rparr>)], use_count = [0 \<mapsto> 1], next_id = 1,
      queued = [scan_worker], finished = [], invocations = []\<rparr>"
  by (simp add: scanning_world_def session_world_eq Sweep_scan_def method_info_def Unwrap_def
        Length_def arg_def AsyncQueueWorker_def ToInt32_def scan_worker_def)

lemma session_alive:
  "Unwrap session_world (Holder (method_info as)) = Some \<lparr>device = \<lparr>get = 7, ctrl = 0\<rparr>\<rparr>"
  by (simp add: session_world_eq Unwrap_def method_info_def)

lemma IsNumberE: "IsNumber v \<Longrightarrow> \<exists>x. v = JSNumber x"
  by (cases v) simp_all

lemma IsFunctionE: "IsFunction v \<Longrightarrow> \<exists>f. v = JSFunction f"
  by (cases v) simp_all

lemma ToInt32_numeral [simp]: "ToInt32 (Fin (numeral k)) = numeral k"
  by (simp add: ToInt32_def)

text \<open>A fresh object is none of the objects that wrap a \<^verbatim>\<open>Sweep\<close>.\<close>

lemma foldr_max_ge: "k \<in> set ks \<Longrightarrow> k \<le> foldr max ks (0::nat)"
  by (induction ks) (auto simp: max_def)

lemma fresh_object_new: "Unwrap w (fresh_object w) = None"
proof -
  have "fresh_object w \<notin> set (map fst (objs w))"
    using foldr_max_ge [of "fresh_object w" "map fst (objs w)"]
    by (auto simp: fresh_object_def)
  then show ?thesis
    by (simp add: Unwrap_def map_of_eq_None_iff)
qed

section \<open>The device field is written once\<close>

text \<open>
  Claim C10. No method of the prototype changes the wrapped \<^verbatim>\<open>Sweep\<close> objects: after
  any call of \<open>startScanning\<close>, \<open>stopScanning\<close>, \<open>scan\<close>, \<open>getMotorSpeed\<close>,
  \<open>setMotorSpeed\<close>, \<open>getSampleRate\<close> or \<open>reset\<close>, with any arguments and whatever
  the driver answers, every object still holds the \<open>device\<close> pointer its constructor
  stored, and the owner counts of the shared pointers are the same. The methods only
  read the field.
\<close>

theorem device_field_unchanged:
  "objs (snd (prototype_call D E m info w)) = objs w \<and>
   use_count (snd (prototype_call D E m info w)) = use_count w"
  by (cases m)
    (simp_all add: method_defs driver_defs AsyncQueueWorker_def
       split: option.split prod.split js_value.split)

section \<open>The getters pass the driver's value through\<close>

text \<open>
  Claim C7. On a live session and called without arguments, \<open>getMotorSpeed\<close> returns
  the number whose value is the \<^verbatim>\<open>int32_t\<close> the driver produced when the driver
  reported no error, and \<open>getSampleRate\<close> likewise: the value is unchanged.
\<close>

theorem getters_return_driver_value:
  assumes alive: "Unwrap w (Holder info) = Some self"
    and noargs: "Length info = 0"
  shows "(\<forall>speed d. sweep_device_get_motor_speed D (get (device self)) (drv w) = ((speed, None), d)
            \<longrightarrow> fst (Sweep_getMotorSpeed D info w) = Return (JSNumber (Fin (of_int (sint speed)))))
       \<and> (\<forall>rate d. sweep_device_get_sample_rate D (get (device self)) (drv w) = ((rate, None), d)
            \<longrightarrow> fst (Sweep_getSampleRate D info w) = Return (JSNumber (Fin (of_int (sint rate)))))"
  using alive noargs
  by (simp add: Sweep_getMotorSpeed_def Sweep_getSampleRate_def driver_defs Nan_New_def)

theorem getters_return_driver_value_witness:
  "Unwrap session_world (Holder (method_info [])) = Some \<lparr>device = \<lparr>get = 7, ctrl = 0\<rparr>\<rparr>
   \<and> Length (method_info []) = 0
   \<and> sweep_device_get_motor_speed (mock_driver None) 7 (drv session_world) = ((5, None), ())
   \<and> fst (Sweep_getMotorSpeed (mock_driver None) (method_info []) session_world)
       = Return (JSNumber (Fin 5))
   \<and> sweep_device_get_sample_rate (mock_driver None) 7 (drv session_world) = ((500, None), ())
   \<and> fst (Sweep_getSampleRate (mock_driver None) (method_info []) session_world)
       = Return (JSNumber (Fin 500))"
proof -
  have l: "Length (method_info []) = 0"
    by (simp add: Length_def method_info_def)
  have m: "sweep_device_get_motor_speed (mock_driver None) 7 (drv session_world) = ((5, None), ())"
    and r: "sweep_device_get_sample_rate (mock_driver None) 7 (drv session_world) = ((500, None), ())"
    by (simp_all add: mock_driver_def)
  from getters_return_driver_value [OF session_alive l, of "mock_driver None"] m r session_alive l
  show ?thesis by simp
qed

section \<open>Synchronous methods fail exactly on a driver error\<close>

text \<open>
  Claim C6. Let a synchronous method (\<open>startScanning\<close>, \<open>stopScanning\<close>,
  \<open>getMotorSpeed\<close>, \<open>setMotorSpeed\<close>, \<open>getSampleRate\<close>, \<open>reset\<close>) be called with
  valid arguments on a live session, and let \<open>c\<close> be its driver command. The call
  throws if and only if the driver reports an error for \<open>c\<close>. When it does, the
  exception is an \<^verbatim>\<open>Error\<close> whose message is the driver's message for that error
  handle, and the driver has been called three times: the command, the read of the
  message, the release of the handle. When it does not, the command is the only driver
  call. In both cases the command is issued once: nothing is retried, nothing swallowed.
\<close>

theorem sync_call_fails_iff_driver_error:
  assumes alive: "Unwrap w (Holder info) = Some self"
    and valid: "valid_arguments m info"
    and cmd: "sync_command m (get (device self)) info = Some c"
  shows "((\<exists>x. fst (prototype_call D E m info w) = Throw x) \<longleftrightarrow> reported D c (drv w) \<noteq> None)
       \<and> (\<forall>error. reported D c (drv w) = Some error \<longrightarrow>
            fst (prototype_call D E m info w)
              = Throw (JSError (sweep_error_message D error (state_after D c (drv w))))
            \<and> calls (snd (prototype_call D E m info w))
              = calls w @ [c, Error_message error, Error_destruct error])
       \<and> (reported D c (drv w) = None \<longrightarrow>
            calls (snd (prototype_call D E m info w)) = calls w @ [c])"
proof (cases m)
  case SetMotorSpeed
  with valid obtain x where x: "arg info 0 = JSNumber x" and len: "Length info = 1"
    using IsNumberE by auto
  from SetMotorSpeed cmd x have c: "c = Device_set_motor_speed (get (device self)) (ToInt32 x)"
    by (simp add: speed_argument_def)
  show ?thesis
    using alive x len
    by (simp add: SetMotorSpeed c Sweep_setMotorSpeed_def driver_defs
          split: option.split prod.split)
next
  case Scan
  with cmd show ?thesis by simp
qed (use alive valid cmd in
      \<open>auto simp: method_defs driver_defs split: option.split prod.split\<close>)

theorem sync_call_fails_iff_driver_error_witness:
  "Unwrap session_world (Holder (method_info [])) = Some \<lparr>device = \<lparr>get = 7, ctrl = 0\<rparr>\<rparr>
   \<and> valid_arguments Reset (method_info [])
   \<and> sync_command Reset 7 (method_info []) = Some (Device_reset 7)
   \<and> reported (mock_driver (Some 4)) (Device_reset 7) (drv session_world) = Some 4
   \<and> fst (prototype_call (mock_driver (Some 4)) mock_engine Reset (method_info []) session_world)
       = Throw (JSError ''timeout'')
   \<and> calls (snd (prototype_call (mock_driver (Some 4)) mock_engine Reset (method_info [])
        session_world))
       = [Device_construct_simple, Device_reset 7, Error_message 4, Error_destruct 4]
   \<and> valid_arguments SetMotorSpeed (method_info [JSNumber (Fin 3)])
   \<and> sync_command SetMotorSpeed 7 (method_info [JSNumber (Fin 3)])
       = Some (Device_set_motor_speed 7 3)
   \<and> reported (mock_driver None) (Device_set_motor_speed 7 3) (drv session_world) = None
   \<and> calls (snd (prototype_call (mock_driver None) mock_engine SetMotorSpeed
        (method_info [JSNumber (Fin 3)]) session_world))
       = [Device_construct_simple, Device_set_motor_speed 7 3]"
proof -
  have v: "valid_arguments Reset (method_info [])"
    by (simp add: Length_def method_info_def)
  have c: "sync_command Reset (get (device \<lparr>device = \<lparr>get = 7, ctrl = 0\<rparr>\<rparr>)) (method_info [])
             = Some (Device_reset 7)"
    by simp
  have r: "reported (mock_driver (Some 4)) (Device_reset 7) (drv session_world) = Some 4"
    by (simp add: mock_driver_def)
  from sync_call_fails_iff_driver_error
         [OF session_alive v c, of "mock_driver (Some 4)" mock_engine] r
  have "fst (prototype_call (mock_driver (Some 4)) mock_engine Reset (method_info [])
               session_world)
          = Throw (JSError (sweep_error_message (mock_driver (Some 4)) 4
              (state_after (mock_driver (Some 4)) (Device_reset 7) (drv session_world))))
        \<and> calls (snd (prototype_call (mock_driver (Some 4)) mock_engine Reset (method_info [])
              session_world))
          = calls session_world @ [Device_reset 7, Error_message 4, Error_destruct 4]"
    by blast
  then have failing:
    "fst (prototype_call (mock_driver (Some 4)) mock_engine Reset (method_info [])
            session_world) = Throw (JSError ''timeout'')
     \<and> calls (snd (prototype_call (mock_driver (Some 4)) mock_engine Reset (method_info [])
            session_world))
         = [Device_construct_simple, Device_reset 7, Error_message 4, Error_destruct 4]"
    by (simp add: mock_driver_def session_world_eq)
  have v3: "valid_arguments SetMotorSpeed (method_info [JSNumber (Fin 3)])"
    by (simp add: Length_def arg_def method_info_def)
  have c3: "sync_command SetMotorSpeed (get (device \<lparr>device = \<lparr>get = 7, ctrl = 0\<rparr>\<rparr>))
              (method_info [JSNumber (Fin 3)]) = Some (Device_set_motor_speed 7 3)"
    by (simp add: speed_argument_def arg_def method_info_def)
  have r3: "reported (mock_driver None) (Device_set_motor_speed 7 3) (drv session_world) = None"
    by (simp add: mock_driver_def)
  from sync_call_fails_iff_driver_error
         [OF session_alive v3 c3, of "mock_driver None" mock_engine] r3
  have "calls (snd (prototype_call (mock_driver None) mock_engine SetMotorSpeed
          (method_info [JSNumber (Fin 3)]) session_world))
          = calls session_world @ [Device_set_motor_speed 7 3]"
    by blast
  then have passing:
    "calls (snd (prototype_call (mock_driver None) mock_engine SetMotorSpeed
          (method_info [JSNumber (Fin 3)]) session_world))
          = [Device_construct_simple, Device_set_motor_speed 7 3]"
    by (simp add: session_world_eq)
  from session_alive [of "[]"] v r failing v3 c3 r3 passing show ?thesis
    by simp
qed

section \<open>The scan is passed through in order\<close>

text \<open>Signed 32-bit counting: below a bound, the increment does not wrap.\<close>

lemma sint_succ:
  fixes i n :: int32_t
  assumes "i <s n"
  shows "sint (i + 1) = sint i + 1"
proof -
  have lt: "sint i < sint n" using assms by (simp add: word_sless_alt)
  have up: "sint n < 2 ^ 31" using sint_lt [of n] by simp
  have lo: "- (2 ^ 31) \<le> sint i" using sint_ge [of i] by simp
  have "sint (i + 1) = signed_take_bit 31 (sint i + 1)"
    by (simp add: sint_word_ariths)
  also have "\<dots> = sint i + 1"
    using lt up lo by (intro signed_take_bit_int_eq_self) auto
  finally show ?thesis .
qed

lemma word_of_nat_sint:
  fixes i :: int32_t
  assumes "0 \<le> sint i"
  shows "word_of_nat (nat (sint i)) = i"
proof -
  have "(word_of_nat (nat (sint i)) :: int32_t) = word_of_int (int (nat (sint i)))"
    by simp
  also have "\<dots> = word_of_int (sint i)"
    using assms by simp
  also have "\<dots> = i"
    by simp
  finally show ?thesis .
qed

lemma unat_nonneg:
  fixes i :: int32_t
  assumes "0 \<le> sint i"
  shows "unat i = nat (sint i)"
proof -
  have "sint i < 2 ^ 31"
    using sint_lt [of i] by simp
  then have small: "nat (sint i) < 2 ^ 32"
    using assms by simp
  have "unat i = unat (word_of_nat (nat (sint i)) :: int32_t)"
    using word_of_nat_sint [OF assms] by simp
  also have "\<dots> = nat (sint i) mod 2 ^ 32"
    by (simp add: unat_of_nat)
  also have "\<dots> = nat (sint i)"
    using small by simp
  finally show ?thesis .
qed

lemma sample_loop_frame:
  "drv (snd (sample_loop D s n i samples w)) = drv w
   \<and> objs (snd (sample_loop D s n i samples w)) = objs w
   \<and> invocations (snd (sample_loop D s n i samples w)) = invocations w
   \<and> queued (snd (sample_loop D s n i samples w)) = queued w
   \<and> finished (snd (sample_loop D s n i samples w)) = finished w"
proof (induction D s n i samples w rule: sample_loop.induct)
  case (1 D s n i samples w)
  show ?case
  proof (cases "i <s n")
    case True
    then show ?thesis
      using 1 [OF True prod.collapse prod.collapse]
      by (subst (1 2 3 4 5) sample_loop.simps)
        (simp add: driver_read_def driver_call_def case_prod_beta)
  next
    case False
    then show ?thesis by (simp add: sample_loop.simps)
  qed
qed

lemma sample_loop_samples:
  assumes "0 \<le> sint i" and "sint i \<le> sint n" and "length samples = nat (sint n)"
  shows "fst (sample_loop D s n i samples w)
           = take (nat (sint i)) samples
             @ map (sample_record D s (drv w)) [nat (sint i)..<nat (sint n)]"
  using assms
proof (induction D s n i samples w rule: sample_loop.induct)
  case (1 D s n i samples w)
  show ?case
  proof (cases "i <s n")
    case True
    let ?w1 = "snd (driver_read (Scan_get_angle s i) (sweep_scan_get_angle D s i) w)"
    let ?w2 = "snd (driver_read (Scan_get_distance s i) (sweep_scan_get_distance D s i) ?w1)"
    let ?v = "sample_record D s (drv w) (nat (sint i))"
    have lt: "sint i < sint n" using True by (simp add: word_sless_alt)
    have suc: "sint (i + 1) = sint i + 1" using True by (rule sint_succ)
    have u: "unat i = nat (sint i)" using "1.prems"(1) by (rule unat_nonneg)
    have d2: "drv ?w2 = drv w" by (simp add: driver_read_def driver_call_def)
    have v: "JSObject
          [(''angle'', Nan_New (fst (driver_read (Scan_get_angle s i) (sweep_scan_get_angle D s i) w))),
           (''distance'', Nan_New (fst (driver_read (Scan_get_distance s i)
               (sweep_scan_get_distance D s i) ?w1)))] = ?v"
      using word_of_nat_sint [OF "1.prems"(1)]
      by (simp add: sample_record_def driver_read_def driver_call_def)
    have k: "nat (sint i) < length samples" using lt "1.prems" by simp
    have step: "fst (sample_loop D s n i samples w)
                  = fst (sample_loop D s n (i + 1) (Nan_Set samples (unat i) ?v) ?w2)"
      using True v by (subst sample_loop.simps) (simp add: case_prod_beta)
    have set: "Nan_Set samples (unat i) ?v = samples[nat (sint i) := ?v]"
      using k u by (simp add: Nan_Set_def)
    have "fst (sample_loop D s n (i + 1) (Nan_Set samples (unat i) ?v) ?w2)
            = take (nat (sint (i + 1))) (Nan_Set samples (unat i) ?v)
              @ map (sample_record D s (drv ?w2)) [nat (sint (i + 1))..<nat (sint n)]"
      using "1.IH" [OF True prod.collapse prod.collapse] v suc lt "1.prems" set
      by simp
    also have "\<dots> = take (nat (sint i)) samples @ ?v
                        # map (sample_record D s (drv w)) [Suc (nat (sint i))..<nat (sint n)]"
      using k "1.prems"(1) by (simp add: set suc d2 nat_add_distrib take_Suc_conv_app_nth)
    also have "\<dots> = take (nat (sint i)) samples
                        @ map (sample_record D s (drv w)) [nat (sint i)..<nat (sint n)]"
      using lt "1.prems"(1) by (simp add: upt_conv_Cons)
    finally show ?thesis using step by simp
  next
    case False
    then have "sint i = sint n" using "1.prems" by (simp add: word_sless_alt)
    then show ?thesis using False "1.prems" by (simp add: sample_loop.simps)
  qed
qed

text \<open>
  A run of one scan: \<open>scan\<close> queues the worker, a pool thread executes it, the main
  loop completes it. The worker is the last of the queue, and then the last of the
  finished ones.
\<close>

lemma Sweep_scan_queues:
  assumes alive: "Unwrap w (Holder info) = Some self"
    and args: "args info = [JSNumber t, JSFunction f]"
  shows "Sweep_scan E info w
           = (Return JSUndefined,
              w\<lparr>queued := queued w
                   @ [\<lparr>sweep = Holder info, timeout = ToInt32 t, scan = None, callback = f,
                       errmsg = None\<rparr>]\<rparr>)"
  using assms by (simp add: Sweep_scan_def Length_def arg_def AsyncQueueWorker_def)

lemma pool_execute_after_scan:
  assumes alive: "Unwrap w (Holder info) = Some self"
    and args: "args info = [JSNumber t, JSFunction f]"
    and ok: "sweep_device_get_scan D (get (device self)) (ToInt32 t) (drv w) = ((s, None), d)"
  shows "pool_execute D (length (queued w)) (snd (Sweep_scan E info w))
           = Some (w\<lparr>drv := d,
                     calls := calls w @ [Device_get_scan (get (device self)) (ToInt32 t)],
                     finished := finished w
                       @ [\<lparr>sweep = Holder info, timeout = ToInt32 t, scan = Some s,
                           callback = f, errmsg = None\<rparr>]\<rparr>)"
  using alive ok
  by (simp add: Sweep_scan_queues [OF alive args] pool_execute_def Execute_def Unwrap_def
        driver_call_def)

lemma pool_execute_after_scan_error:
  assumes alive: "Unwrap w (Holder info) = Some self"
    and args: "args info = [JSNumber t, JSFunction f]"
    and err: "sweep_device_get_scan D (get (device self)) (ToInt32 t) (drv w)
                = ((s, Some error), d)"
  shows "pool_execute D (length (queued w)) (snd (Sweep_scan E info w))
           = Some (w\<lparr>drv := sweep_error_destruct D error d,
                     calls := calls w @ [Device_get_scan (get (device self)) (ToInt32 t),
                                         Error_message error, Error_destruct error],
                     finished := finished w
                       @ [\<lparr>sweep = Holder info, timeout = ToInt32 t, scan = Some s,
                           callback = f, errmsg = Some (sweep_error_message D error d)\<rparr>]\<rparr>)"
  using alive err
  by (simp add: Sweep_scan_queues [OF alive args] pool_execute_def Execute_def Unwrap_def
        driver_defs)

lemma HandleOKCallback_delivers:
  assumes "scan wk = Some s"
  shows "\<exists>w'. HandleOKCallback D wk w = Some w'
           \<and> invocations w' = invocations w @
               [(callback wk, [JSNull, JSArray (map (sample_record D s (drv w))
                  [0..<nat (sint (sweep_scan_get_number_of_samples D s (drv w)))])])]
           \<and> queued w' = queued w \<and> finished w' = finished w"
proof -
  let ?n = "sweep_scan_get_number_of_samples D s (drv w)"
  let ?w1 = "snd (driver_read (Scan_get_number_of_samples s)
                    (sweep_scan_get_number_of_samples D s) w)"
  let ?r = "sample_loop D s ?n 0 (Nan_New_Array ?n) ?w1"
  have n: "fst (driver_read (Scan_get_number_of_samples s)
                  (sweep_scan_get_number_of_samples D s) w) = ?n"
    and d1: "drv ?w1 = drv w" and i1: "invocations ?w1 = invocations w"
    and q1: "queued ?w1 = queued w" and f1: "finished ?w1 = finished w"
    by (simp_all add: driver_read_def driver_call_def)
  have samples: "fst ?r = map (sample_record D s (drv w)) [0..<nat (sint ?n)]"
  proof (cases "0 \<le> sint ?n")
    case True
    then show ?thesis
      using sample_loop_samples [of 0 ?n "Nan_New_Array ?n" D s ?w1]
      by (simp add: Nan_New_Array_def d1)
  next
    case False
    then have "\<not> 0 <s ?n" by (simp add: word_sless_alt)
    then show ?thesis
      using False by (simp add: sample_loop.simps Nan_New_Array_def)
  qed
  have frame: "invocations (snd ?r) = invocations w" "queued (snd ?r) = queued w"
    "finished (snd ?r) = finished w"
    using sample_loop_frame [of D s ?n 0 "Nan_New_Array ?n" ?w1] i1 q1 f1 by simp_all
  show ?thesis
    using assms samples frame n
    by (simp add: HandleOKCallback_def Call_def case_prod_beta)
qed

lemma loop_complete_last_ok:
  assumes fin: "finished w = fs @ [wk]"
    and s: "scan wk = Some s" and e: "errmsg wk = None"
  shows "\<exists>w'. loop_complete D (length fs) w = Some w'
           \<and> invocations w' = invocations w @
               [(callback wk, [JSNull, JSArray (map (sample_record D s (drv w))
                  [0..<nat (sint (sweep_scan_get_number_of_samples D s (drv w)))])])]
           \<and> queued w' = queued w \<and> finished w' = fs"
proof -
  obtain w1 where hok: "HandleOKCallback D wk w = Some w1"
    and inv: "invocations w1 = invocations w @
               [(callback wk, [JSNull, JSArray (map (sample_record D s (drv w))
                  [0..<nat (sint (sweep_scan_get_number_of_samples D s (drv w)))])])]"
    and q: "queued w1 = queued w" and f: "finished w1 = finished w"
    using HandleOKCallback_delivers [OF s, of D w] by auto
  have "loop_complete D (length fs) w = Some (w1\<lparr>finished := fs\<rparr>)"
    using hok f fin e by (simp add: loop_complete_def WorkComplete_def)
  with inv q show ?thesis by simp
qed

lemma loop_complete_last_error:
  assumes fin: "finished w = fs @ [wk]" and e: "errmsg wk = Some msg"
  shows "loop_complete D (length fs) w
           = Some (w\<lparr>invocations := invocations w @ [(callback wk, [JSError msg])],
                     finished := fs\<rparr>)"
  using assms
  by (simp add: loop_complete_def WorkComplete_def HandleErrorCallback_def Call_def)

text \<open>
  Claim C4. Let \<open>scan(t, f)\<close> be called on a live session, and let the driver answer
  the read with a scan \<open>s\<close> and no error. The call returns, a pool thread executes the
  worker it queued and the main loop completes it. Then the continuation \<open>f\<close> given to
  \<open>scan\<close> has been called exactly once, at the completion and not before, with
  \<^verbatim>\<open>null\<close> and an array of exactly \<open>N\<close> records, \<open>N\<close> the number of samples the
  driver gives for \<open>s\<close>; record \<open>i\<close> holds the angle and the distance the driver gives
  for index \<open>i\<close>, in the driver's order: nothing sorted, dropped or repeated. The worker
  is no longer outstanding.
\<close>

theorem scan_delivers_samples_in_order:
  assumes alive: "Unwrap w (Holder info) = Some self"
    and args: "args info = [JSNumber t, JSFunction f]"
    and ok: "sweep_device_get_scan D (get (device self)) (ToInt32 t) (drv w) = ((s, None), d)"
  shows "fst (Sweep_scan E info w) = Return JSUndefined \<and>
         (\<exists>w2 w3. pool_execute D (length (queued w)) (snd (Sweep_scan E info w)) = Some w2
            \<and> invocations w2 = invocations w
            \<and> loop_complete D (length (finished w)) w2 = Some w3
            \<and> invocations w3 = invocations w @
                 [(f, [JSNull, JSArray (map (sample_record D s d)
                    [0..<nat (sint (sweep_scan_get_number_of_samples D s d))])])]
            \<and> outstanding w3 = outstanding w)"
proof -
  let ?wk = "\<lparr>sweep = Holder info, timeout = ToInt32 t, scan = Some s, callback = f,
              errmsg = None\<rparr>"
  let ?w2 = "w\<lparr>drv := d,
               calls := calls w @ [Device_get_scan (get (device self)) (ToInt32 t)],
               finished := finished w @ [?wk]\<rparr>"
  have ret: "fst (Sweep_scan E info w) = Return JSUndefined"
    by (simp add: Sweep_scan_queues [OF alive args])
  have ex: "pool_execute D (length (queued w)) (snd (Sweep_scan E info w)) = Some ?w2"
    using alive args ok by (rule pool_execute_after_scan)
  obtain w3 where co: "loop_complete D (length (finished w)) ?w2 = Some w3"
    and inv: "invocations w3 = invocations ?w2 @
               [(callback ?wk, [JSNull, JSArray (map (sample_record D s (drv ?w2))
                  [0..<nat (sint (sweep_scan_get_number_of_samples D s (drv ?w2)))])])]"
    and q: "queued w3 = queued ?w2" and fi: "finished w3 = finished w"
    using loop_complete_last_ok [of ?w2 "finished w" ?wk s D] by auto
  have "invocations ?w2 = invocations w"
    by simp
  moreover have "invocations w3 = invocations w @
                 [(f, [JSNull, JSArray (map (sample_record D s d)
                    [0..<nat (sint (sweep_scan_get_number_of_samples D s d))])])]"
    using inv by simp
  moreover have "outstanding w3 = outstanding w"
    using q fi by (simp add: outstanding_def)
  ultimately show ?thesis
    using ret ex co by blast
qed

theorem scan_delivers_samples_in_order_witness:
  "Unwrap session_world (Holder (method_info [JSNumber (Fin 5000), JSFunction 9]))
     = Some \<lparr>device = \<lparr>get = 7, ctrl = 0\<rparr>\<rparr>
   \<and> args (method_info [JSNumber (Fin 5000), JSFunction 9]) = [JSNumber (Fin 5000), JSFunction 9]
   \<and> sweep_device_get_scan (mock_driver None) 7 5000 (drv session_world) = ((3, None), ())
   \<and> map_option invocations
        (Option.bind (pool_execute (mock_driver None) 0 scanning_world)
           (loop_complete (mock_driver None) 0))
       = Some [(9, [JSNull, JSArray
            [JSObject [(''angle'', JSNumber (Fin 90)), (''distance'', JSNumber (Fin 20))],
             JSObject [(''angle'', JSNumber (Fin 180)), (''distance'', JSNumber (Fin 21))]]])]"
proof -
  let ?info = "method_info [JSNumber (Fin 5000), JSFunction 9]"
  let ?D = "mock_driver None"
  have a: "args ?info = [JSNumber (Fin 5000), JSFunction 9]"
    by (simp add: method_info_def)
  have g: "sweep_device_get_scan ?D (get (device \<lparr>device = \<lparr>get = 7, ctrl = 0\<rparr>\<rparr>))
             (ToInt32 (Fin 5000)) (drv session_world) = ((3, None), ())"
    by (simp add: mock_driver_def)
  from scan_delivers_samples_in_order [OF session_alive a g, of mock_engine]
  obtain w2 w3 where
    ex: "pool_execute ?D (length (queued session_world))
           (snd (Sweep_scan mock_engine ?info session_world)) = Some w2"
    and co: "loop_complete ?D (length (finished session_world)) w2 = Some w3"
    and inv: "invocations w3 = invocations session_world @
                 [(9, [JSNull, JSArray (map (sample_record ?D 3 ())
                    [0..<nat (sint (sweep_scan_get_number_of_samples ?D 3 ()))])])]"
    by blast
  have "map_option invocations
          (Option.bind (pool_execute ?D 0 scanning_world) (loop_complete ?D 0))
          = Some (invocations w3)"
    using ex co by (simp add: scanning_world_def session_world_eq)
  also have "invocations w3 = [(9, [JSNull, JSArray
            [JSObject [(''angle'', JSNumber (Fin 90)), (''distance'', JSNumber (Fin 20))],
             JSObject [(''angle'', JSNumber (Fin 180)), (''distance'', JSNumber (Fin 21))]]])]"
    unfolding inv
    by (simp add: session_world_eq mock_driver_def sample_record_def Nan_New_def upt_rec)
  finally show ?thesis
    using session_alive [of "[JSNumber (Fin 5000), JSFunction 9]"] a g by simp
qed

section \<open>The outcome of a scan and the error slot\<close>

text \<open>
  Claim C5. Let \<open>scan(t, f)\<close> be called on a live session, a pool thread execute the
  worker it queued and the main loop complete it. When the driver answers the read with
  an error handle (a timeout is one), the continuation \<open>f\<close> is called once, with one
  argument only, an \<^verbatim>\<open>Error\<close> carrying the driver's message for that handle: the
  error is in the first slot and there is no sample array. When the driver reports no
  error, \<open>f\<close> is called once with \<^verbatim>\<open>null\<close> in the first slot and the array in the
  second.
\<close>

theorem scan_outcome_in_error_slot:
  assumes alive: "Unwrap w (Holder info) = Some self"
    and args: "args info = [JSNumber t, JSFunction f]"
  shows "(\<forall>s error d.
            sweep_device_get_scan D (get (device self)) (ToInt32 t) (drv w) = ((s, Some error), d)
            \<longrightarrow> (\<exists>w2 w3.
                   pool_execute D (length (queued w)) (snd (Sweep_scan E info w)) = Some w2
                   \<and> invocations w2 = invocations w
                   \<and> loop_complete D (length (finished w)) w2 = Some w3
                   \<and> invocations w3 = invocations w @
                        [(f, [JSError (sweep_error_message D error d)])]
                   \<and> outstanding w3 = outstanding w))
       \<and> (\<forall>s d.
            sweep_device_get_scan D (get (device self)) (ToInt32 t) (drv w) = ((s, None), d)
            \<longrightarrow> (\<exists>w2 w3 samples.
                   pool_execute D (length (queued w)) (snd (Sweep_scan E info w)) = Some w2
                   \<and> invocations w2 = invocations w
                   \<and> loop_complete D (length (finished w)) w2 = Some w3
                   \<and> invocations w3 = invocations w @ [(f, [JSNull, JSArray samples])]
                   \<and> outstanding w3 = outstanding w))"
proof (intro conjI allI impI)
  fix s error d
  assume r: "sweep_device_get_scan D (get (device self)) (ToInt32 t) (drv w)
               = ((s, Some error), d)"
  let ?wk = "\<lparr>sweep = Holder info, timeout = ToInt32 t, scan = Some s, callback = f,
              errmsg = Some (sweep_error_message D error d)\<rparr>"
  let ?w2 = "w\<lparr>drv := sweep_error_destruct D error d,
               calls := calls w @ [Device_get_scan (get (device self)) (ToInt32 t),
                                   Error_message error, Error_destruct error],
               finished := finished w @ [?wk]\<rparr>"
  let ?w3 = "?w2\<lparr>invocations := invocations ?w2 @
                  [(callback ?wk, [JSError (sweep_error_message D error d)])],
                finished := finished w\<rparr>"
  have ex: "pool_execute D (length (queued w)) (snd (Sweep_scan E info w)) = Some ?w2"
    using alive args r by (rule pool_execute_after_scan_error)
  have co: "loop_complete D (length (finished w)) ?w2 = Some ?w3"
    by (rule loop_complete_last_error) simp_all
  have "invocations ?w2 = invocations w"
    and "invocations ?w3 = invocations w @ [(f, [JSError (sweep_error_message D error d)])]"
    and "outstanding ?w3 = outstanding w"
    by (simp_all add: outstanding_def)
  with ex co show "\<exists>w2 w3.
       pool_execute D (length (queued w)) (snd (Sweep_scan E info w)) = Some w2
       \<and> invocations w2 = invocations w
       \<and> loop_complete D (length (finished w)) w2 = Some w3
       \<and> invocations w3 = invocations w @ [(f, [JSError (sweep_error_message D error d)])]
       \<and> outstanding w3 = outstanding w"
    by blast
next
  fix s d
  assume r: "sweep_device_get_scan D (get (device self)) (ToInt32 t) (drv w) = ((s, None), d)"
  let ?wk = "\<lparr>sweep = Holder info, timeout = ToInt32 t, scan = Some s, callback = f,
              errmsg = None\<rparr>"
  let ?w2 = "w\<lparr>drv := d,
               calls := calls w @ [Device_get_scan (get (device self)) (ToInt32 t)],
               finished := finished w @ [?wk]\<rparr>"
  have ex: "pool_execute D (length (queued w)) (snd (Sweep_scan E info w)) = Some ?w2"
    using alive args r by (rule pool_execute_after_scan)
  obtain w3 samples where co: "loop_complete D (length (finished w)) ?w2 = Some w3"
    and inv: "invocations w3 = invocations ?w2 @ [(callback ?wk, [JSNull, JSArray samples])]"
    and q: "queued w3 = queued ?w2" and fi: "finished w3 = finished w"
    using loop_complete_last_ok [of ?w2 "finished w" ?wk s D] by auto
  have "invocations ?w2 = invocations w"
    by simp
  moreover have "invocations w3 = invocations w @ [(f, [JSNull, JSArray samples])]"
    using inv by simp
  moreover have "outstanding w3 = outstanding w"
    using q fi by (simp add: outstanding_def)
  ultimately show "\<exists>w2 w3 samples.
       pool_execute D (length (queued w)) (snd (Sweep_scan E info w)) = Some w2
       \<and> invocations w2 = invocations w
       \<and> loop_complete D (length (finished w)) w2 = Some w3
       \<and> invocations w3 = invocations w @ [(f, [JSNull, JSArray samples])]
       \<and> outstanding w3 = outstanding w"
    using ex co by blast
qed

theorem scan_outcome_in_error_slot_witness:
  "Unwrap session_world (Holder (method_info [JSNumber (Fin 5000), JSFunction 9]))
     = Some \<lparr>device = \<lparr>get = 7, ctrl = 0\<rparr>\<rparr>
   \<and> args (method_info [JSNumber (Fin 5000), JSFunction 9]) = [JSNumber (Fin 5000), JSFunction 9]
   \<and> sweep_device_get_scan (mock_driver (Some 4)) 7 5000 (drv session_world) = ((3, Some 4), ())
   \<and> map_option invocations
        (Option.bind (pool_execute (mock_driver (Some 4)) 0 scanning_world)
           (loop_complete (mock_driver (Some 4)) 0))
       = Some [(9, [JSError ''timeout''])]
   \<and> sweep_device_get_scan (mock_driver None) 7 5000 (drv session_world) = ((3, None), ())
   \<and> map_option (map (\<lambda>c. (fst c, hd (snd c), length (snd c))) \<circ> invocations)
        (Option.bind (pool_execute (mock_driver None) 0 scanning_world)
           (loop_complete (mock_driver None) 0))
       = Some [(9, JSNull, 2)]"
proof -
  let ?info = "method_info [JSNumber (Fin 5000), JSFunction 9]"
  have a: "args ?info = [JSNumber (Fin 5000), JSFunction 9]"
    by (simp add: method_info_def)
  have g: "sweep_device_get_scan (mock_driver (Some 4))
             (get (device \<lparr>device = \<lparr>get = 7, ctrl = 0\<rparr>\<rparr>))
             (ToInt32 (Fin 5000)) (drv session_world) = ((3, Some 4), ())"
    and g0: "sweep_device_get_scan (mock_driver None)
             (get (device \<lparr>device = \<lparr>get = 7, ctrl = 0\<rparr>\<rparr>))
             (ToInt32 (Fin 5000)) (drv session_world) = ((3, None), ())"
    by (simp_all add: mock_driver_def)
  from scan_outcome_in_error_slot
         [OF session_alive a, of "mock_driver (Some 4)" mock_engine] g
  obtain w2 w3 where
    ex: "pool_execute (mock_driver (Some 4)) (length (queued session_world))
           (snd (Sweep_scan mock_engine ?info session_world)) = Some w2"
    and co: "loop_complete (mock_driver (Some 4)) (length (finished session_world)) w2 = Some w3"
    and inv: "invocations w3 = invocations session_world @
                [(9, [JSError (sweep_error_message (mock_driver (Some 4)) 4 ())])]"
    by blast
  have failing: "map_option invocations
        (Option.bind (pool_execute (mock_driver (Some 4)) 0 scanning_world)
           (loop_complete (mock_driver (Some 4)) 0))
       = Some [(9, [JSError ''timeout''])]"
    using ex co inv by (simp add: scanning_world_def session_world_eq mock_driver_def)
  from scan_outcome_in_error_slot
         [OF session_alive a, of "mock_driver None" mock_engine] g0
  obtain v2 v3 samples where
    ex0: "pool_execute (mock_driver None) (length (queued session_world))
           (snd (Sweep_scan mock_engine ?info session_world)) = Some v2"
    and co0: "loop_complete (mock_driver None) (length (finished session_world)) v2 = Some v3"
    and inv0: "invocations v3 = invocations session_world @ [(9, [JSNull, JSArray samples])]"
    by blast
  have passing: "map_option (map (\<lambda>c. (fst c, hd (snd c), length (snd c))) \<circ> invocations)
        (Option.bind (pool_execute (mock_driver None) 0 scanning_world)
           (loop_complete (mock_driver None) 0))
       = Some [(9, JSNull, 2)]"
    using ex0 co0 inv0 by (simp add: scanning_world_def session_world_eq)
  from session_alive [of "[JSNumber (Fin 5000), JSFunction 9]"] a g failing g0 passing
  show ?thesis by simp
qed

section \<open>A failed construction\<close>

lemma Sweep_ctor_error:
  assumes "reported D Device_construct_simple (drv w) = Some error"
  shows "Sweep_ctor D w
           = (Inl ''device construction failed'',
              w\<lparr>drv := state_after D Device_construct_simple (drv w),
                 calls := calls w @ [Device_construct_simple]\<rparr>)"
  using assms
  by (cases "sweep_device_construct_simple D (drv w)")
    (auto simp: Sweep_ctor_def driver_call_def)

lemma Sweep_ctor_port_error:
  assumes "reported D (Device_construct port baudrate tmo) (drv w) = Some error"
  shows "Sweep_ctor_port D port baudrate tmo w
           = (Inl ''device construction failed'',
              w\<lparr>drv := state_after D (Device_construct port baudrate tmo) (drv w),
                 calls := calls w @ [Device_construct port baudrate tmo]\<rparr>)"
  using assms
  by (cases "sweep_device_construct D port baudrate tmo (drv w)")
    (auto simp: Sweep_ctor_port_def driver_call_def)

text \<open>
  Claim C8. When the driver reports an error for the construction, be it the
  auto-detecting one (no arguments) or the one with port, baud rate and timeout, then
  \<^verbatim>\<open>Sweep::New\<close> throws the error \<^verbatim>\<open>device construction failed\<close>, no
  \<^verbatim>\<open>Sweep\<close> object is wrapped and no shared pointer is made, and the construction is
  the only driver call: \<^verbatim>\<open>sweep_device_destruct\<close> is not called on the handle that
  failed, nor can it be later, since nothing owns that handle.
\<close>

theorem construction_failure_leaves_nothing:
  "(Length info = 0 \<and> reported D Device_construct_simple (drv w) = Some error
      \<longrightarrow> fst (Sweep_New D E info w) = Throw (JSError ''device construction failed'')
          \<and> objs (snd (Sweep_New D E info w)) = objs w
          \<and> use_count (snd (Sweep_New D E info w)) = use_count w
          \<and> calls (snd (Sweep_New D E info w)) = calls w @ [Device_construct_simple])
   \<and> (IsConstructCall info \<and> args info = [JSString p, JSNumber b, JSNumber t]
        \<and> Utf8String E (JSString p) = Some port
        \<and> reported D (Device_construct port (ToInt32 b) (ToInt32 t)) (drv w) = Some error
      \<longrightarrow> fst (Sweep_New D E info w) = Throw (JSError ''device construction failed'')
          \<and> objs (snd (Sweep_New D E info w)) = objs w
          \<and> use_count (snd (Sweep_New D E info w)) = use_count w
          \<and> calls (snd (Sweep_New D E info w))
              = calls w @ [Device_construct port (ToInt32 b) (ToInt32 t)])"
proof (intro conjI impI)
  assume h: "Length info = 0 \<and> reported D Device_construct_simple (drv w) = Some error"
  then have r: "reported D Device_construct_simple (drv (w\<lparr>next_id := Suc (fresh_object w)\<rparr>))
                  = Some error"
    by simp
  have new: "Sweep_New D E info w
        = (Throw (JSError ''device construction failed''),
           (if IsConstructCall info then w else w\<lparr>next_id := Suc (fresh_object w)\<rparr>)
             \<lparr>drv := state_after D Device_construct_simple (drv w),
              calls := calls w @ [Device_construct_simple]\<rparr>)"
    using h Sweep_ctor_error [of D w error] Sweep_ctor_error [OF r]
    by (simp add: Sweep_New_def New_construct_def)
  show "fst (Sweep_New D E info w) = Throw (JSError ''device construction failed'')"
    and "objs (snd (Sweep_New D E info w)) = objs w"
    and "use_count (snd (Sweep_New D E info w)) = use_count w"
    and "calls (snd (Sweep_New D E info w)) = calls w @ [Device_construct_simple]"
    by (simp_all add: new)
next
  assume h: "IsConstructCall info \<and> args info = [JSString p, JSNumber b, JSNumber t]
        \<and> Utf8String E (JSString p) = Some port
        \<and> reported D (Device_construct port (ToInt32 b) (ToInt32 t)) (drv w) = Some error"
  then have new: "Sweep_New D E info w
        = (Throw (JSError ''device construction failed''),
           w\<lparr>drv := state_after D (Device_construct port (ToInt32 b) (ToInt32 t)) (drv w),
             calls := calls w @ [Device_construct port (ToInt32 b) (ToInt32 t)]\<rparr>)"
    using Sweep_ctor_port_error [of D port "ToInt32 b" "ToInt32 t" w error]
    by (simp add: Sweep_New_def New_construct_def Length_def arg_def)
  show "fst (Sweep_New D E info w) = Throw (JSError ''device construction failed'')"
    and "objs (snd (Sweep_New D E info w)) = objs w"
    and "use_count (snd (Sweep_New D E info w)) = use_count w"
    and "calls (snd (Sweep_New D E info w))
           = calls w @ [Device_construct port (ToInt32 b) (ToInt32 t)]"
    by (simp_all add: new)
qed

theorem construction_failure_leaves_nothing_witness:
  "Length (new_info []) = 0
   \<and> reported (mock_driver (Some 4)) Device_construct_simple (drv (init_world ())) = Some 4
   \<and> Sweep_New (mock_driver (Some 4)) mock_engine (new_info []) (init_world ())
       = (Throw (JSError ''device construction failed''),
          (init_world ())\<lparr>calls := [Device_construct_simple]\<rparr>)
   \<and> IsConstructCall (new_info [JSString ''/dev/ttyUSB0'', JSNumber (Fin 115200), JSNumber (Fin 1000)])
   \<and> Utf8String mock_engine (JSString ''/dev/ttyUSB0'') = Some ''/dev/ttyUSB0''
   \<and> reported (mock_driver (Some 4)) (Device_construct ''/dev/ttyUSB0'' 115200 1000)
        (drv (init_world ())) = Some 4
   \<and> fst (Sweep_New (mock_driver (Some 4)) mock_engine
        (new_info [JSString ''/dev/ttyUSB0'', JSNumber (Fin 115200), JSNumber (Fin 1000)])
        (init_world ()))
       = Throw (JSError ''device construction failed'')
   \<and> calls (snd (Sweep_New (mock_driver (Some 4)) mock_engine
        (new_info [JSString ''/dev/ttyUSB0'', JSNumber (Fin 115200), JSNumber (Fin 1000)])
        (init_world ())))
       = [Device_construct ''/dev/ttyUSB0'' 115200 1000]"
proof -
  let ?D = "mock_driver (Some 4)"
  let ?info = "new_info [JSString ''/dev/ttyUSB0'', JSNumber (Fin 115200), JSNumber (Fin 1000)]"
  have l: "Length (new_info []) = 0"
    by (simp add: Length_def new_info_def)
  have r1: "reported ?D Device_construct_simple (drv (init_world ())) = Some 4"
    by (simp add: mock_driver_def)
  have c: "IsConstructCall ?info"
    and a: "args ?info = [JSString ''/dev/ttyUSB0'', JSNumber (Fin 115200), JSNumber (Fin 1000)]"
    by (simp_all add: new_info_def)
  have u: "Utf8String mock_engine (JSString ''/dev/ttyUSB0'') = Some ''/dev/ttyUSB0''"
    by (simp add: mock_engine_def)
  have r2: "reported ?D (Device_construct ''/dev/ttyUSB0'' (ToInt32 (Fin 115200))
              (ToInt32 (Fin 1000))) (drv (init_world ())) = Some 4"
    by (simp add: mock_driver_def)
  from construction_failure_leaves_nothing
         [where info = "new_info []" and D = ?D and w = "init_world ()" and error = 4
            and E = mock_engine] l r1
  have s1: "fst (Sweep_New ?D mock_engine (new_info []) (init_world ()))
              = Throw (JSError ''device construction failed'')"
    and s2: "objs (snd (Sweep_New ?D mock_engine (new_info []) (init_world ())))
              = objs (init_world ())"
    and s3: "use_count (snd (Sweep_New ?D mock_engine (new_info []) (init_world ())))
              = use_count (init_world ())"
    and s4: "calls (snd (Sweep_New ?D mock_engine (new_info []) (init_world ())))
              = calls (init_world ()) @ [Device_construct_simple]"
    by blast+
  have s: "Sweep_New ?D mock_engine (new_info []) (init_world ())
       = (Throw (JSError ''device construction failed''),
          (init_world ())\<lparr>calls := [Device_construct_simple]\<rparr>)"
    using s1 s4
    by (simp add: Sweep_New_def New_construct_def Sweep_ctor_def driver_call_def
          mock_driver_def new_info_def Length_def init_world_def)
  from construction_failure_leaves_nothing
         [where info = ?info and D = ?D and w = "init_world ()" and error = 4
            and p = "''/dev/ttyUSB0''" and b = "Fin 115200" and t = "Fin 1000"
            and E = mock_engine and port = "''/dev/ttyUSB0''"] c a u r2
  have t1: "fst (Sweep_New ?D mock_engine ?info (init_world ()))
              = Throw (JSError ''device construction failed'')"
    and t4: "calls (snd (Sweep_New ?D mock_engine ?info (init_world ())))
              = calls (init_world ())
                @ [Device_construct ''/dev/ttyUSB0'' (ToInt32 (Fin 115200)) (ToInt32 (Fin 1000))]"
    by blast+
  from t4 have t4': "calls (snd (Sweep_New ?D mock_engine ?info (init_world ())))
              = [Device_construct ''/dev/ttyUSB0'' 115200 1000]"
    by (simp add: init_world_def)
  from l r1 s c u r2 t1 t4' show ?thesis
    by simp
qed

section \<open>Synchronous commands while a scan is in flight\<close>

text \<open>
  Claim C2, as amended. The binding has no exclusion between a scan in flight and the
  synchronous methods. In every state, whatever workers are outstanding, a synchronous
  method called with valid arguments on a live session issues its driver command within
  the call: the command is the next entry of the driver's log. The outstanding workers
  stay as they are, and no callback has been called in between.
\<close>

theorem sync_command_not_deferred:
  assumes alive: "Unwrap w (Holder info) = Some self"
    and valid: "valid_arguments m info"
    and cmd: "sync_command m (get (device self)) info = Some c"
  shows "(\<exists>rest. calls (snd (prototype_call D E m info w)) = calls w @ c # rest)
       \<and> outstanding (snd (prototype_call D E m info w)) = outstanding w
       \<and> invocations (snd (prototype_call D E m info w)) = invocations w"
proof (cases m)
  case SetMotorSpeed
  with valid obtain x where x: "arg info 0 = JSNumber x" and len: "Length info = 1"
    using IsNumberE by auto
  from SetMotorSpeed cmd x have c: "c = Device_set_motor_speed (get (device self)) (ToInt32 x)"
    by (simp add: speed_argument_def)
  show ?thesis
    using alive x len
    by (simp add: SetMotorSpeed c Sweep_setMotorSpeed_def driver_defs outstanding_def
          split: option.split prod.split)
next
  case Scan
  with cmd show ?thesis by simp
qed (use alive valid cmd in
      \<open>auto simp: method_defs driver_defs outstanding_def split: option.split prod.split\<close>)

theorem sync_command_not_deferred_witness:
  "Unwrap scanning_world (Holder (method_info [])) = Some \<lparr>device = \<lparr>get = 7, ctrl = 0\<rparr>\<rparr>
   \<and> valid_arguments GetMotorSpeed (method_info [])
   \<and> sync_command GetMotorSpeed 7 (method_info []) = Some (Device_get_motor_speed 7)
   \<and> outstanding scanning_world = [scan_worker]
   \<and> take 2 (calls (snd (prototype_call (mock_driver None) mock_engine GetMotorSpeed
        (method_info []) scanning_world)))
       = [Device_construct_simple, Device_get_motor_speed 7]
   \<and> outstanding (snd (prototype_call (mock_driver None) mock_engine GetMotorSpeed
        (method_info []) scanning_world)) = [scan_worker]
   \<and> invocations (snd (prototype_call (mock_driver None) mock_engine GetMotorSpeed
        (method_info []) scanning_world)) = []"
proof -
  have a: "Unwrap scanning_world (Holder (method_info []))
             = Some \<lparr>device = \<lparr>get = 7, ctrl = 0\<rparr>\<rparr>"
    by (simp add: scanning_world_eq Unwrap_def method_info_def)
  have v: "valid_arguments GetMotorSpeed (method_info [])"
    by (simp add: Length_def method_info_def)
  have c: "sync_command GetMotorSpeed (get (device \<lparr>device = \<lparr>get = 7, ctrl = 0\<rparr>\<rparr>))
             (method_info []) = Some (Device_get_motor_speed 7)"
    by simp
  have o: "outstanding scanning_world = [scan_worker]"
    and i: "invocations scanning_world = []"
    and k: "calls scanning_world = [Device_construct_simple]"
    by (simp_all add: scanning_world_eq outstanding_def)
  from sync_command_not_deferred [OF a v c, of "mock_driver None" mock_engine]
  obtain rest where
    "calls (snd (prototype_call (mock_driver None) mock_engine GetMotorSpeed
        (method_info []) scanning_world)) = calls scanning_world @ Device_get_motor_speed 7 # rest"
    and "outstanding (snd (prototype_call (mock_driver None) mock_engine GetMotorSpeed
        (method_info []) scanning_world)) = outstanding scanning_world"
    and "invocations (snd (prototype_call (mock_driver None) mock_engine GetMotorSpeed
        (method_info []) scanning_world)) = invocations scanning_world"
    by blast
  with a v o i k show ?thesis by simp
qed

text \<open>
  The claim as stated fails: after \<^verbatim>\<open>scan(5000, f)\<close> one worker is outstanding and
  its callback has not been called, and yet \<open>getMotorSpeed()\<close> returns 5 at once and
  the driver has seen \<^verbatim>\<open>sweep_device_get_motor_speed\<close>.
\<close>

theorem sync_command_deferred_counterexample:
  "outstanding scanning_world = [scan_worker]
   \<and> invocations scanning_world = []
   \<and> prototype_call (mock_driver None) mock_engine GetMotorSpeed (method_info []) scanning_world
       = (Return (JSNumber (Fin 5)),
          scanning_world\<lparr>calls := [Device_construct_simple, Device_get_motor_speed 7]\<rparr>)"
  by (simp add: scanning_world_eq outstanding_def Sweep_getMotorSpeed_def Unwrap_def
        method_info_def Length_def driver_call_def mock_driver_def Nan_New_def)

section \<open>Who owns the device during a scan\<close>

text \<open>
  Claim C1 says that the worker of a scan co-owns the device, so that destroying the
  session while the worker is outstanding does not release the device. The worker holds a
  reference to the \<^verbatim>\<open>Sweep\<close> object instead and takes no share of the pointer: after
  \<^verbatim>\<open>new Sweep().scan(5000, f)\<close> the device has one owner, the session. When the
  session is finalised with the worker still outstanding and its callback not yet called,
  \<^verbatim>\<open>sweep_device_destruct\<close> runs at once, and the \<^verbatim>\<open>Execute\<close> that follows goes
  through a dangling reference.
\<close>

theorem device_destroyed_under_running_scan:
  "outstanding scanning_world = [scan_worker]
   \<and> use_count scanning_world 0 = Some 1
   \<and> calls (Finalize (mock_driver None) 1 scanning_world)
       = [Device_construct_simple, Device_destruct 7]
   \<and> outstanding (Finalize (mock_driver None) 1 scanning_world) = [scan_worker]
   \<and> invocations (Finalize (mock_driver None) 1 scanning_world) = []
   \<and> pool_execute (mock_driver None) 0 (Finalize (mock_driver None) 1 scanning_world) = None"
  by (simp add: scanning_world_eq outstanding_def Finalize_def release_def driver_proc_def
        driver_call_def mock_driver_def pool_execute_def Execute_def scan_worker_def)

section \<open>Arguments of the wrong shape\<close>

text \<open>
  Every method but \<open>setMotorSpeed\<close> rejects arguments of the wrong count or type with
  a type error and leaves the world as it was: no driver function has been called. So
  does \<^verbatim>\<open>Sweep::New\<close>.
\<close>

theorem wrong_arguments_rejected:
  assumes alive: "Unwrap w (Holder info) = Some self"
    and other: "m \<noteq> SetMotorSpeed"
    and bad: "\<not> valid_arguments m info"
  shows "\<exists>msg. prototype_call D E m info w = (Throw (JSTypeError msg), w)"
  using assms by (cases m) (auto simp: method_defs)

theorem wrong_arguments_rejected_witness:
  "Unwrap session_world (Holder (method_info [JSNull])) = Some \<lparr>device = \<lparr>get = 7, ctrl = 0\<rparr>\<rparr>
   \<and> StartScanning \<noteq> SetMotorSpeed
   \<and> \<not> valid_arguments StartScanning (method_info [JSNull])
   \<and> prototype_call (mock_driver None) mock_engine StartScanning (method_info [JSNull])
        session_world
       = (Throw (JSTypeError ''No arguments expected''), session_world)"
proof -
  have o: "StartScanning \<noteq> SetMotorSpeed"
    by simp
  have b: "\<not> valid_arguments StartScanning (method_info [JSNull])"
    by (simp add: Length_def method_info_def)
  from wrong_arguments_rejected [OF session_alive o b, of "mock_driver None" mock_engine]
  have "snd (prototype_call (mock_driver None) mock_engine StartScanning (method_info [JSNull])
               session_world) = session_world"
    by force
  moreover have "fst (prototype_call (mock_driver None) mock_engine StartScanning
                   (method_info [JSNull]) session_world)
                   = Throw (JSTypeError ''No arguments expected'')"
    using session_alive [of "[JSNull]"]
    by (simp add: Sweep_startScanning_def Length_def method_info_def)
  ultimately show ?thesis
    using session_alive [of "[JSNull]"] o b by (simp add: prod_eq_iff)
qed

lemma New_wrong_arguments_rejected:
  assumes "Length info \<noteq> 0"
    and "\<not> (Length info = 3 \<and> IsString (arg info 0) \<and> IsNumber (arg info 1)
             \<and> IsNumber (arg info 2))"
  shows "\<exists>msg. Sweep_New D E info w = (Throw (JSTypeError msg), w)"
  using assms by (simp add: Sweep_New_def)

text \<open>
  Claim C3 says the same of every method. \<open>setMotorSpeed\<close> is the exception: its guard
  is a conjunction, so it rejects a call only when the count and the type are both wrong.
  Called with one boolean, with one string or with two numbers it throws nothing and
  calls \<^verbatim>\<open>sweep_device_set_motor_speed\<close> with the first argument converted.
\<close>

theorem setMotorSpeed_accepts_wrong_arguments:
  "\<not> valid_arguments SetMotorSpeed (method_info [JSBoolean True])
   \<and> Sweep_setMotorSpeed (mock_driver None) mock_engine (method_info [JSBoolean True])
        session_world
       = (Return JSUndefined,
          session_world\<lparr>calls := [Device_construct_simple, Device_set_motor_speed 7 1]\<rparr>)
   \<and> \<not> valid_arguments SetMotorSpeed (method_info [JSString ''fast''])
   \<and> Sweep_setMotorSpeed (mock_driver None) mock_engine (method_info [JSString ''fast''])
        session_world
       = (Return JSUndefined,
          session_world\<lparr>calls := [Device_construct_simple, Device_set_motor_speed 7 0]\<rparr>)
   \<and> \<not> valid_arguments SetMotorSpeed (method_info [JSNumber (Fin 5), JSNumber (Fin 6)])
   \<and> Sweep_setMotorSpeed (mock_driver None) mock_engine
        (method_info [JSNumber (Fin 5), JSNumber (Fin 6)]) session_world
       = (Return JSUndefined,
          session_world\<lparr>calls := [Device_construct_simple, Device_set_motor_speed 7 5]\<rparr>)"
  by (simp add: session_world_eq Sweep_setMotorSpeed_def Unwrap_def method_info_def Length_def
        arg_def driver_call_def mock_driver_def mock_engine_def ToInt32_def)

section \<open>The driver's error handles\<close>

text \<open>
  The methods read the message of an error handle and release the handle in the same
  call (the theorem of claim C6 lists the three driver calls). So does \<^verbatim>\<open>Execute\<close>.
\<close>

theorem Execute_releases_error:
  assumes alive: "map_of (objs w) (sweep wk) = Some self"
    and err: "reported D (Device_get_scan (get (device self)) (timeout wk)) (drv w) = Some error"
  shows "\<exists>wk' w1. Execute D wk w = Some (wk', w1)
           \<and> calls w1 = calls w @ [Device_get_scan (get (device self)) (timeout wk),
                                     Error_message error, Error_destruct error]"
  using assms
  by (cases "sweep_device_get_scan D (get (device self)) (timeout wk) (drv w)")
    (auto simp: Execute_def driver_defs)

theorem Execute_releases_error_witness:
  "map_of (objs scanning_world) (sweep scan_worker) = Some \<lparr>device = \<lparr>get = 7, ctrl = 0\<rparr>\<rparr>
   \<and> reported (mock_driver (Some 4)) (Device_get_scan 7 (timeout scan_worker))
        (drv scanning_world) = Some 4
   \<and> map_option (calls \<circ> snd) (Execute (mock_driver (Some 4)) scan_worker scanning_world)
       = Some [Device_construct_simple, Device_get_scan 7 5000, Error_message 4,
               Error_destruct 4]"
proof -
  have a: "map_of (objs scanning_world) (sweep scan_worker) = Some \<lparr>device = \<lparr>get = 7, ctrl = 0\<rparr>\<rparr>"
    by (simp add: scanning_world_eq scan_worker_def)
  have r: "reported (mock_driver (Some 4))
             (Device_get_scan (get (device \<lparr>device = \<lparr>get = 7, ctrl = 0\<rparr>\<rparr>))
                (timeout scan_worker)) (drv scanning_world) = Some 4"
    by (simp add: mock_driver_def)
  from Execute_releases_error [OF a r]
  have "map_option (calls \<circ> snd) (Execute (mock_driver (Some 4)) scan_worker scanning_world)
          = Some (calls scanning_world
                  @ [Device_get_scan (get (device \<lparr>device = \<lparr>get = 7, ctrl = 0\<rparr>\<rparr>))
                       (timeout scan_worker), Error_message 4, Error_destruct 4])"
    by force
  then show ?thesis
    using a r by (simp add: scanning_world_eq scan_worker_def)
qed

text \<open>
  Claim C9 says it of every operation. The constructors are the exception: on a driver
  error they throw the fixed message \<^verbatim>\<open>device construction failed\<close> and return. The
  construction is the only driver call; the error handle (here handle 4) is neither
  read by \<^verbatim>\<open>sweep_error_message\<close> nor released by \<^verbatim>\<open>sweep_error_destruct\<close>.
\<close>

theorem constructor_leaks_error_handle:
  "reported (mock_driver (Some 4)) Device_construct_simple () = Some 4
   \<and> Sweep_New (mock_driver (Some 4)) mock_engine (new_info []) (init_world ())
       = (Throw (JSError ''device construction failed''),
          (init_world ())\<lparr>calls := [Device_construct_simple]\<rparr>)
   \<and> reported (mock_driver (Some 4)) (Device_construct ''/dev/ttyUSB0'' 115200 1000) () = Some 4
   \<and> Sweep_New (mock_driver (Some 4)) mock_engine
        (new_info [JSString ''/dev/ttyUSB0'', JSNumber (Fin 115200), JSNumber (Fin 1000)])
        (init_world ())
       = (Throw (JSError ''device construction failed''),
          (init_world ())\<lparr>calls := [Device_construct ''/dev/ttyUSB0'' 115200 1000]\<rparr>)"
  by (simp add: Sweep_New_def New_construct_def Sweep_ctor_def Sweep_ctor_port_def
        driver_call_def mock_driver_def mock_engine_def new_info_def Length_def arg_def
        init_world_def)

section \<open>The steps of a worker keep the objects\<close>

lemma worker_steps_keep_objects:
  "(case pool_execute D k w of None \<Rightarrow> True
      | Some w' \<Rightarrow> objs w' = objs w \<and> use_count w' = use_count w)"
  by (auto simp: pool_execute_def Execute_def driver_defs split: option.split prod.split)

end
